theory Spec2Isabelle
  imports Main "HOL-Library.Sublist"
begin

section \<open>JavaScript values used by the program\<close>

text \<open>
  An optional property of a TypeScript interface is an \<open>option\<close>: \<open>None\<close> is
  \<open>undefined\<close>. A string is truthy when it is present and not empty; \<open>a || b\<close> on an
  optional string yields \<open>a\<close> when \<open>a\<close> is truthy and \<open>b\<close> otherwise.
\<close>

fun truthy :: "string option \<Rightarrow> bool" where
  "truthy None = False"
| "truthy (Some s) = (s \<noteq> [])"

fun or_else :: "string option \<Rightarrow> string \<Rightarrow> string" where
  "or_else None d = d"
| "or_else (Some s) d = (if s = [] then d else s)"

text \<open>\<open>String.prototype.includes\<close>: the pattern occurs as a contiguous run.\<close>

fun includes_str :: "string \<Rightarrow> string \<Rightarrow> bool" where
  "includes_str [] p = (p = [])"
| "includes_str (c # cs) p = (prefix p (c # cs) \<or> includes_str cs p)"

datatype js_error = TypeError | Error string

section \<open>types: configuration and metadata record\<close>

record RayBanConfig =
  frontCamera :: "bool option"
  hasAudio :: "bool option"
  customDate :: "string option"
  latitude :: "string option"
  longitude :: "string option"
  altitude :: "string option"
  locationName :: "string option"
  customComment :: "string option"

text \<open>The empty configuration \<open>{}\<close>, the default of every \<open>config\<close> parameter.\<close>

definition empty_config :: RayBanConfig where
  "empty_config = \<lparr>frontCamera = None, hasAudio = None, customDate = None,
     latitude = None, longitude = None, altitude = None, locationName = None,
     customComment = None\<rparr>"

datatype LatitudeRef = N | S
datatype LongitudeRef = E | W

text \<open>
  The metadata record (the field \<open>make\<close> is \<open>make_field\<close> here). The fields copied from a camera preset are always defined; the three
  GPS coordinate fields are read off the resolved location object and can be \<open>undefined\<close>.
\<close>

record RayBanMetadataOptions =
  make_field :: string
  model :: string
  software :: string
  lensModel :: string
  createDate :: string
  modifyDate :: string
  cameraModelName :: string
  deviceType :: string
  captureMode :: string
  audioChannels :: nat
  microphone :: string
  fieldOfView :: string
  imageStabilization :: string
  comment :: string
  gpsLatitude :: "string option"
  gpsLongitude :: "string option"
  gpsAltitude :: "string option"
  gpsLatitudeRef :: LatitudeRef
  gpsLongitudeRef :: LongitudeRef

section \<open>constants: RAYBAN_PRESETS\<close>

record camera_preset =
  p_make :: string
  p_model :: string
  p_software :: string
  p_lensModel :: string
  p_cameraModelName :: string
  p_deviceType :: string
  p_captureMode :: string
  p_audioChannels :: nat
  p_microphone :: string
  p_fieldOfView :: string
  p_imageStabilization :: string
  p_gpsLatitude :: string
  p_gpsLongitude :: string
  p_gpsAltitude :: string
  p_gpsLatitudeRef :: LatitudeRef
  p_gpsLongitudeRef :: LongitudeRef
  p_defaultComment :: string

text \<open>The degree sign of the field-of-view labels is the code unit \<open>0xB0\<close>.\<close>

definition FRONT_CAMERA :: camera_preset where
  "FRONT_CAMERA = \<lparr>
     p_make = ''Meta'',
     p_model = ''Ray-Ban Stories'',
     p_software = ''Meta Camera v2.1.4'',
     p_lensModel = ''Ray-Ban Stories Front Camera 5.5mm f/2.0'',
     p_cameraModelName = ''Meta Ray-Ban Stories'',
     p_deviceType = ''Smart Glasses'',
     p_captureMode = ''Video'',
     p_audioChannels = 2,
     p_microphone = ''Beamforming Array'',
     p_fieldOfView = ''87'' @ [CHR 0xB0],
     p_imageStabilization = ''Electronic'',
     p_gpsLatitude = ''40.7128'',
     p_gpsLongitude = ''-74.0060'',
     p_gpsAltitude = ''10'',
     p_gpsLatitudeRef = N,
     p_gpsLongitudeRef = W,
     p_defaultComment = ''Recorded on Meta Ray-Ban Smart Glasses - First-person perspective''\<rparr>"

definition MAIN_CAMERA :: camera_preset where
  "MAIN_CAMERA = \<lparr>
     p_make = ''Meta'',
     p_model = ''Ray-Ban Meta'',
     p_software = ''Meta Camera v3.0.1'',
     p_lensModel = ''Ray-Ban Stories Wide Angle 12mm f/1.8'',
     p_cameraModelName = ''Meta Ray-Ban'',
     p_deviceType = ''Smart Glasses Camera'',
     p_captureMode = ''Hands-free Video'',
     p_audioChannels = 4,
     p_microphone = ''5-microphone array with noise cancellation'',
     p_fieldOfView = ''120'' @ [CHR 0xB0] @ '' ultra-wide'',
     p_imageStabilization = ''Optical + Electronic'',
     p_gpsLatitude = ''37.7749'',
     p_gpsLongitude = ''-122.4194'',
     p_gpsAltitude = ''5'',
     p_gpsLatitudeRef = N,
     p_gpsLongitudeRef = W,
     p_defaultComment = ''Captured with Meta Ray-Ban Smart Glasses - Hands-free recording''\<rparr>"

text \<open>
  A location object as \<open>generateMetadata\<close> reads it: its \<open>lat\<close>, \<open>lon\<close> and \<open>alt\<close>
  properties, \<open>None\<close> where the object has no such property.
\<close>

record location =
  lat :: "string option"
  lon :: "string option"
  alt :: "string option"

definition loc :: "string \<Rightarrow> string \<Rightarrow> string \<Rightarrow> location" where
  "loc a b c = \<lparr>lat = Some a, lon = Some b, alt = Some c\<rparr>"

text \<open>The own properties of \<open>RAYBAN_PRESETS.LOCATIONS\<close>, in source order.\<close>

definition LOCATIONS :: "(string \<times> location) list" where
  "LOCATIONS =
    [(''new-york'', loc ''40.7128'' ''-74.0060'' ''10''),
     (''san-francisco'', loc ''37.7749'' ''-122.4194'' ''5''),
     (''london'', loc ''51.5074'' ''-0.1278'' ''15''),
     (''tokyo'', loc ''35.6762'' ''139.6503'' ''20''),
     (''paris'', loc ''48.8566'' ''2.3522'' ''35''),
     (''default'', loc ''37.7749'' ''-122.4194'' ''5'')]"

text \<open>
  \<open>LOCATIONS\<close> is an object literal, so \<open>LOCATIONS[name]\<close> follows the prototype chain:
  a name that is not an own key but names a property of \<open>Object.prototype\<close> yields that
  inherited value (a function, or the prototype object itself for \<open>__proto__\<close>). Every
  one of these values is truthy and has none of the properties \<open>lat\<close>, \<open>lon\<close>, \<open>alt\<close>.
\<close>

definition object_prototype_keys :: "string list" where
  "object_prototype_keys =
    [''constructor'', ''hasOwnProperty'', ''isPrototypeOf'', ''propertyIsEnumerable'',
     ''toLocaleString'', ''toString'', ''valueOf'', ''__proto__'',
     ''__defineGetter__'', ''__defineSetter__'', ''__lookupGetter__'', ''__lookupSetter__'']"

definition inherited_value :: location where
  "inherited_value = \<lparr>lat = None, lon = None, alt = None\<rparr>"

text \<open>The property read \<open>LOCATIONS[name]\<close>; \<open>None\<close> is \<open>undefined\<close>.\<close>

definition LOCATIONS_get :: "string \<Rightarrow> location option" where
  "LOCATIONS_get name =
     (case map_of LOCATIONS name of
        Some l \<Rightarrow> Some l
      | None \<Rightarrow> if name \<in> set object_prototype_keys then Some inherited_value else None)"

section \<open>The clock: \<open>new Date().toISOString()\<close>\<close>

text \<open>
  The current instant in UTC, as the fields \<open>toISOString\<close> prints. A time value of the
  runtime is always well formed (\<open>valid_time\<close>), and on such values \<open>pad\<close> never cuts
  a digit off.
\<close>

record utc_time =
  year :: int
  month :: nat
  day :: nat
  hour :: nat
  minute :: nat
  second :: nat
  millisecond :: nat

definition valid_time :: "utc_time \<Rightarrow> bool" where
  "valid_time t \<longleftrightarrow>
     - 271821 \<le> year t \<and> year t \<le> 275760 \<and> 1 \<le> month t \<and> month t \<le> 12 \<and>
     1 \<le> day t \<and> day t \<le> 31 \<and> hour t < 24 \<and> minute t < 60 \<and> second t < 60 \<and>
     millisecond t < 1000"

definition digit :: "nat \<Rightarrow> char" where
  "digit d = ''0123456789'' ! d"

text \<open>The last \<open>w\<close> decimal digits of \<open>n\<close>, zero padded.\<close>

fun pad :: "nat \<Rightarrow> nat \<Rightarrow> string" where
  "pad 0 n = []"
| "pad (Suc w) n = pad w (n div 10) @ [digit (n mod 10)]"

text \<open>Years 0 to 9999 print as four digits, all others as a sign and six digits.\<close>

definition toISOString :: "utc_time \<Rightarrow> string" where
  "toISOString t =
     (if 0 \<le> year t \<and> year t \<le> 9999 then pad 4 (nat (year t))
      else (if year t < 0 then ''-'' else ''+'') @ pad 6 (nat \<bar>year t\<bar>))
     @ ''-'' @ pad 2 (month t) @ ''-'' @ pad 2 (day t)
     @ ''T'' @ pad 2 (hour t) @ '':'' @ pad 2 (minute t) @ '':'' @ pad 2 (second t)
     @ ''.'' @ pad 3 (millisecond t) @ ''Z''"

text \<open>\<open>s.replace(c, r)\<close> for a one-character pattern: the first occurrence only.\<close>

fun replace_first :: "char \<Rightarrow> string \<Rightarrow> string \<Rightarrow> string" where
  "replace_first c r [] = []"
| "replace_first c r (x # xs) = (if x = c then r @ xs else x # replace_first c r xs)"

section \<open>metadata-generator: generateMetadata\<close>

text \<open>
  The block of \<open>generateMetadata\<close> that assigns \<open>location\<close>: explicit coordinates when
  both are truthy, else the table entry of a truthy name when that entry is truthy, else the
  entry of the camera type.
\<close>

definition resolve_location :: "RayBanConfig \<Rightarrow> location" where
  "resolve_location config =
     (if truthy (latitude config) \<and> truthy (longitude config) then
        \<lparr>lat = latitude config, lon = longitude config,
         alt = Some (or_else (altitude config) ''5'')\<rparr>
      else if truthy (locationName config)
              \<and> LOCATIONS_get (the (locationName config)) \<noteq> None then
        the (LOCATIONS_get (the (locationName config)))
      else if (case frontCamera config of None \<Rightarrow> False | Some b \<Rightarrow> b) then
        the (LOCATIONS_get ''new-york'')
      else
        the (LOCATIONS_get ''san-francisco''))"

definition generateMetadata :: "utc_time \<Rightarrow> RayBanConfig \<Rightarrow> RayBanMetadataOptions" where
  "generateMetadata now config =
     (let frontCamera = (case frontCamera config of None \<Rightarrow> False | Some b \<Rightarrow> b);
          hasAudio = (case hasAudio config of None \<Rightarrow> True | Some b \<Rightarrow> b);
          preset = (if frontCamera then FRONT_CAMERA else MAIN_CAMERA);
          date = or_else (customDate config)
                   (take 19 (replace_first CHR ''T'' '' '' (toISOString now)));
          location = resolve_location config
      in \<lparr>make_field = p_make preset,
          model = p_model preset,
          software = p_software preset,
          lensModel = p_lensModel preset,
          createDate = date,
          modifyDate = date,
          cameraModelName = p_cameraModelName preset,
          deviceType = p_deviceType preset,
          captureMode = p_captureMode preset,
          audioChannels = (if hasAudio then p_audioChannels preset else 0),
          microphone = (if hasAudio then p_microphone preset else ''None''),
          fieldOfView = p_fieldOfView preset,
          imageStabilization = p_imageStabilization preset,
          comment = or_else (customComment config) (p_defaultComment preset),
          gpsLatitude = lat location,
          gpsLongitude = lon location,
          gpsAltitude = alt location,
          gpsLatitudeRef = p_gpsLatitudeRef preset,
          gpsLongitudeRef = p_gpsLongitudeRef preset\<rparr>)"

section \<open>The platform's POSIX path functions\<close>

text \<open>
  The functions of Node's \<open>path\<close> module that the program calls, for POSIX paths. The last
  component of a path is what follows the last slash once trailing slashes are dropped.
\<close>

definition is_slash :: "char \<Rightarrow> bool" where
  "is_slash c \<longleftrightarrow> c = CHR ''/''"

definition last_component :: "string \<Rightarrow> string" where
  "last_component p =
     rev (takeWhile (\<lambda>c. \<not> is_slash c) (dropWhile is_slash (rev p)))"

text \<open>
  \<open>path.extname\<close>: from the last dot of the last component to its end; empty when the
  component has no dot, when its last dot is its first character, or when it is \<open>..\<close>.
\<close>

definition extname :: "string \<Rightarrow> string" where
  "extname p =
     (let rc = rev (last_component p) in
      if CHR ''.'' \<notin> set rc then []
      else if tl (dropWhile (\<lambda>c. c \<noteq> CHR ''.'') rc) = [] \<or> rc = ''..'' then []
      else CHR ''.'' # rev (takeWhile (\<lambda>c. c \<noteq> CHR ''.'') rc))"

text \<open>
  \<open>path.basename(p, suffix)\<close>: the last component, without the suffix when the component
  ends with it and is longer than it. When the scan runs out of component before the suffix
  is matched, the runtime returns the rest of the path, trailing slashes included.
\<close>

definition basename :: "string \<Rightarrow> string \<Rightarrow> string" where
  "basename p sfx =
     (let comp = last_component p in
      if sfx \<noteq> [] \<and> length sfx \<le> length p then
        if sfx = p then []
        else if suffix sfx comp then
          (if comp = sfx then comp else take (length comp - length sfx) comp)
        else if suffix comp sfx then comp @ takeWhile is_slash (rev p)
        else comp
      else comp)"

text \<open>
  \<open>path.dirname\<close>: the scan for the separator before the last component never looks at
  the first character.
\<close>

definition dirname :: "string \<Rightarrow> string" where
  "dirname p =
     (case p of
        [] \<Rightarrow> ''.''
      | c # cs \<Rightarrow>
          (let r = dropWhile (\<lambda>c. \<not> is_slash c) (dropWhile is_slash (rev cs)) in
           if r = [] then (if is_slash c then ''/'' else ''.'')
           else if is_slash c \<and> tl r = [] then ''//''
           else c # rev (tl r)))"

text \<open>The segments of a path between slashes.\<close>

fun split_slash :: "string \<Rightarrow> string list" where
  "split_slash [] = [[]]"
| "split_slash (c # cs) =
     (if is_slash c then [] # split_slash cs
      else (case split_slash cs of s # ss \<Rightarrow> (c # s) # ss | [] \<Rightarrow> [[c]]))"

fun join_slash :: "string list \<Rightarrow> string" where
  "join_slash [] = []"
| "join_slash [s] = s"
| "join_slash (s # t # ss) = s @ ''/'' @ join_slash (t # ss)"

text \<open>
  One segment of \<open>normalizeString\<close>: empty and \<open>.\<close> segments vanish, \<open>..\<close> removes the
  segment before it unless there is none or it is \<open>..\<close> itself; then it is kept when the
  path is relative and dropped at the root.
\<close>

definition normalize_step :: "bool \<Rightarrow> string list \<Rightarrow> string \<Rightarrow> string list" where
  "normalize_step allowAboveRoot res seg =
     (if seg = [] \<or> seg = ''.'' then res
      else if seg = ''..'' then
        (if res \<noteq> [] \<and> last res \<noteq> ''..'' then butlast res
         else if allowAboveRoot then res @ [''..''] else res)
      else res @ [seg])"

definition normalizeString :: "string \<Rightarrow> bool \<Rightarrow> string" where
  "normalizeString p allowAboveRoot =
     join_slash (foldl (normalize_step allowAboveRoot) [] (split_slash p))"

definition normalize :: "string \<Rightarrow> string" where
  "normalize p =
     (if p = [] then ''.''
      else
        (let isAbsolute = is_slash (hd p);
             trailingSeparator = is_slash (last p);
             r = normalizeString p (\<not> isAbsolute) in
         if r = [] then (if isAbsolute then ''/'' else if trailingSeparator then ''./'' else ''.'')
         else (if isAbsolute then ''/'' else []) @ r @ (if trailingSeparator then ''/'' else [])))"

text \<open>\<open>path.join\<close>: the non-empty arguments joined by slashes, then normalised.\<close>

definition join :: "string list \<Rightarrow> string" where
  "join args =
     (let parts = filter (\<lambda>a. a \<noteq> []) args in
      if parts = [] then ''.'' else normalize (join_slash parts))"

text \<open>
  \<open>toLowerCase\<close> on the code units below 256: the letters A to Z and the accented capitals
  \<open>0xC0\<close> to \<open>0xDE\<close> (except the multiplication sign \<open>0xD7\<close>) move up by 32.
\<close>

definition upper_chars :: "char list" where
  "upper_chars = ''ABCDEFGHIJKLMNOPQRSTUVWXYZ'' @
     [CHR 0xC0, CHR 0xC1, CHR 0xC2, CHR 0xC3, CHR 0xC4, CHR 0xC5, CHR 0xC6, CHR 0xC7,
      CHR 0xC8, CHR 0xC9, CHR 0xCA, CHR 0xCB, CHR 0xCC, CHR 0xCD, CHR 0xCE, CHR 0xCF,
      CHR 0xD0, CHR 0xD1, CHR 0xD2, CHR 0xD3, CHR 0xD4, CHR 0xD5, CHR 0xD6,
      CHR 0xD8, CHR 0xD9, CHR 0xDA, CHR 0xDB, CHR 0xDC, CHR 0xDD, CHR 0xDE]"

definition lower_chars :: "char list" where
  "lower_chars = ''abcdefghijklmnopqrstuvwxyz'' @
     [CHR 0xE0, CHR 0xE1, CHR 0xE2, CHR 0xE3, CHR 0xE4, CHR 0xE5, CHR 0xE6, CHR 0xE7,
      CHR 0xE8, CHR 0xE9, CHR 0xEA, CHR 0xEB, CHR 0xEC, CHR 0xED, CHR 0xEE, CHR 0xEF,
      CHR 0xF0, CHR 0xF1, CHR 0xF2, CHR 0xF3, CHR 0xF4, CHR 0xF5, CHR 0xF6,
      CHR 0xF8, CHR 0xF9, CHR 0xFA, CHR 0xFB, CHR 0xFC, CHR 0xFD, CHR 0xFE]"

definition lower_char :: "char \<Rightarrow> char" where
  "lower_char c = (case map_of (zip upper_chars lower_chars) c of Some l \<Rightarrow> l | None \<Rightarrow> c)"

definition toLowerCase :: "string \<Rightarrow> string" where
  "toLowerCase s = map lower_char s"

section \<open>video-processor: pure parts\<close>

definition VIDEO_EXTENSIONS :: "string list" where
  "VIDEO_EXTENSIONS = [''.mp4'', ''.mov'', ''.avi'', ''.mkv'', ''.m4v'', ''.webm'']"

definition isVideoFile :: "string \<Rightarrow> bool" where
  "isVideoFile filePath = (toLowerCase (extname filePath) \<in> set VIDEO_EXTENSIONS)"

text \<open>
  The class declares \<open>generateOutputPath\<close> twice; the later declaration, with the optional
  \<open>additionalSuffix\<close>, is the one in force, and it agrees with the earlier one when the
  suffix is absent.
\<close>

definition generateOutputPath_first :: "string \<Rightarrow> bool option \<Rightarrow> string" where
  "generateOutputPath_first inputPath front =
     (let dir = dirname inputPath;
          name = basename inputPath (extname inputPath);
          ext = extname inputPath;
          sfx = (if front = Some True then ''_rayban_front'' else ''_rayban'')
      in join [dir, name @ sfx @ ext])"

definition generateOutputPath :: "string \<Rightarrow> bool option \<Rightarrow> string option \<Rightarrow> string" where
  "generateOutputPath inputPath front additionalSuffix =
     (let dir = dirname inputPath;
          name = basename inputPath (extname inputPath);
          ext = extname inputPath;
          cameraSuffix = (if front = Some True then ''_rayban_front'' else ''_rayban'');
          fullSuffix = (if truthy additionalSuffix
                        then cameraSuffix @ ''_'' @ the additionalSuffix else cameraSuffix)
      in join [dir, name @ fullSuffix @ ext])"

section \<open>The outside world\<close>

text \<open>
  Everything the program does outside its own code is an \<open>event\<close>: a call of the
  filesystem, of the metadata tool or of the transcoder, or a line on the console. The
  model appends every event to a trace, so that what was attempted, and in which order, can
  be read off afterwards. Progress callbacks are advisory and are not modelled.
\<close>

function dec :: "nat \<Rightarrow> string" where
  "dec n = (if n < 10 then [digit n] else dec (n div 10) @ [digit (n mod 10)])"
  by pat_completeness auto
termination
  by (relation "measure id") auto

datatype console =
    Processed string
  | Failed string
  | ErrorProcessing string js_error
  | ErrorProcessingVideo js_error
  | ErrorOptimizingVideo js_error
  | ErrorMergingVideos js_error

datatype event =
    CopyFile string string
  | Unlink string
  | ExiftoolWrite string "(string \<times> string option) list"
  | FfmpegProcessVideo string string RayBanConfig
  | FfmpegMerge "string list" string string
  | Console console

record file_stat =
  isFile :: bool
  st_size :: nat

text \<open>
  The environment answers the calls. Reads leave the world \<open>'w\<close> as it is; every other
  external call returns the error it raised, if any, and the world after it.
\<close>

record 'w env =
  readdir :: "'w \<Rightarrow> string \<Rightarrow> js_error + string list"
  stat :: "'w \<Rightarrow> string \<Rightarrow> js_error + file_stat"
  exiftool_read :: "'w \<Rightarrow> string \<Rightarrow> js_error + (string \<rightharpoonup> string)"
  external :: "'w \<Rightarrow> event \<Rightarrow> js_error option \<times> 'w"
  new_Date :: "'w \<Rightarrow> utc_time"
  Date_now :: "'w \<Rightarrow> nat"

type_synonym 'w state = "'w \<times> event list"

definition call :: "'w env \<Rightarrow> event \<Rightarrow> 'w state \<Rightarrow> js_error option \<times> 'w state" where
  "call env e s =
     (case external env (fst s) e of (r, w') \<Rightarrow> (r, (w', snd s @ [e])))"

definition print :: "console \<Rightarrow> 'w state \<Rightarrow> 'w state" where
  "print c s = (fst s, snd s @ [Console c])"

section \<open>video-processor: verifyMetadata\<close>

text \<open>
  \<open>Array.prototype.every\<close> with a callback that can throw: it stops at the first element
  whose callback is false, and an exception leaves the loop at once.
\<close>

fun every :: "('a \<Rightarrow> js_error + bool) \<Rightarrow> 'a list \<Rightarrow> js_error + bool" where
  "every f [] = Inr True"
| "every f (x # xs) =
     (case f x of Inl e \<Rightarrow> Inl e | Inr b \<Rightarrow> if b then every f xs else Inr False)"

definition requiredTags :: "string list" where
  "requiredTags = [''Make'', ''Model'', ''Software'', ''LensModel'']"

text \<open>
  The callback of \<open>verifyMetadata\<close>. Its body is one expression \<open>a && b || c\<close>, read as
  \<open>(a && b) || c\<close>, where \<open>a\<close> is the tag's value. A missing tag makes the left operand
  falsy, and the right operand then calls \<open>includes\<close> on \<open>undefined\<close>: a TypeError.
\<close>

definition tag_check :: "(string \<rightharpoonup> string) \<Rightarrow> string \<Rightarrow> js_error + bool" where
  "tag_check tags tag =
     (case tags tag of
        None \<Rightarrow> Inl TypeError
      | Some v \<Rightarrow> Inr ((v \<noteq> [] \<and> includes_str v ''Ray-Ban'') \<or> includes_str v ''Meta''))"

definition verifyMetadata :: "'w env \<Rightarrow> 'w \<Rightarrow> string \<Rightarrow> bool" where
  "verifyMetadata env w filePath =
     (case exiftool_read env w filePath of
        Inl e \<Rightarrow> False
      | Inr tags \<Rightarrow>
          (case every (tag_check tags) requiredTags of Inl e \<Rightarrow> False | Inr b \<Rightarrow> b))"

section \<open>video-processor: getVideoFiles, addMetadata, batchProcess\<close>

record VideoFile =
  path :: string
  name :: string
  size_field :: nat
  extension :: string

fun getVideoFiles_loop ::
  "'w env \<Rightarrow> 'w \<Rightarrow> string \<Rightarrow> string list \<Rightarrow> VideoFile list \<Rightarrow> js_error + VideoFile list" where
  "getVideoFiles_loop env w directory [] videoFiles = Inr videoFiles"
| "getVideoFiles_loop env w directory (file # files) videoFiles =
     (let filePath = join [directory, file] in
      case stat env w filePath of
        Inl e \<Rightarrow> Inl e
      | Inr st \<Rightarrow>
          getVideoFiles_loop env w directory files
            (if isFile st \<and> isVideoFile filePath
             then videoFiles @ [\<lparr>path = filePath, name = file, size_field = st_size st,
                                 extension = extname file\<rparr>]
             else videoFiles))"

definition getVideoFiles :: "'w env \<Rightarrow> 'w \<Rightarrow> string \<Rightarrow> js_error + VideoFile list" where
  "getVideoFiles env w directory =
     (case readdir env w directory of
        Inl e \<Rightarrow> Inl e
      | Inr files \<Rightarrow> getVideoFiles_loop env w directory files [])"

definition generateTempPath :: "nat \<Rightarrow> string \<Rightarrow> string \<Rightarrow> string" where
  "generateTempPath timestamp inputPath sfx =
     (let dir = dirname inputPath;
          name = basename inputPath (extname inputPath);
          ext = extname inputPath
      in join [dir, name @ ''_'' @ sfx @ ''_'' @ dec timestamp @ ext])"

fun ref_lat :: "LatitudeRef \<Rightarrow> string" where
  "ref_lat N = ''N''"
| "ref_lat S = ''S''"

fun ref_lon :: "LongitudeRef \<Rightarrow> string" where
  "ref_lon E = ''E''"
| "ref_lon W = ''W''"

definition writableTags :: "RayBanMetadataOptions \<Rightarrow> (string \<times> string option) list" where
  "writableTags metadata =
     [(''Make'', Some (make_field metadata)),
      (''Model'', Some (model metadata)),
      (''Software'', Some (software metadata)),
      (''LensModel'', Some (lensModel metadata)),
      (''CreateDate'', Some (createDate metadata)),
      (''ModifyDate'', Some (modifyDate metadata)),
      (''Comment'', Some (comment metadata)),
      (''GPSLatitude'', gpsLatitude metadata),
      (''GPSLongitude'', gpsLongitude metadata),
      (''GPSAltitude'', gpsAltitude metadata),
      (''GPSLatitudeRef'', Some (ref_lat (gpsLatitudeRef metadata))),
      (''GPSLongitudeRef'', Some (ref_lon (gpsLongitudeRef metadata)))]"

text \<open>
  The body of the \<open>try\<close> block of \<open>addMetadata\<close>: \<open>Inl\<close> is the exception that reaches
  the \<open>catch\<close>. The transcoding step is one call of the transcoder.
\<close>

definition addMetadata_try ::
  "'w env \<Rightarrow> string \<Rightarrow> string option \<Rightarrow> RayBanConfig \<Rightarrow> bool \<Rightarrow> 'w state
     \<Rightarrow> (js_error + unit) \<times> 'w state" where
  "addMetadata_try env inputPath outputPath config processVideo s =
     (if \<not> isVideoFile inputPath then
        (Inl (Error (''File is not a supported video: '' @ inputPath)), s)
      else
        let finalOutputPath =
              or_else outputPath (generateOutputPath inputPath (frontCamera config) None);
            metadata = generateMetadata (new_Date env (fst s)) config;
            tempOutputPath = generateTempPath (Date_now env (fst s)) inputPath ''processed'';
            (r1, s1) = (if processVideo
                        then call env (FfmpegProcessVideo inputPath tempOutputPath config) s
                        else (None, s));
            processingPath = (if processVideo then tempOutputPath else inputPath)
        in case r1 of
             Some e \<Rightarrow> (Inl e, s1)
           | None \<Rightarrow>
               (let (r2, s2) = (if finalOutputPath \<noteq> processingPath
                                then call env (CopyFile processingPath finalOutputPath) s1
                                else (None, s1))
                in case r2 of
                     Some e \<Rightarrow> (Inl e, s2)
                   | None \<Rightarrow>
                       (case call env (ExiftoolWrite finalOutputPath (writableTags metadata)) s2 of
                          (Some e, s3) \<Rightarrow> (Inl e, s3)
                        | (None, s3) \<Rightarrow>
                            (Inr (),
                             if processVideo \<and> processingPath \<noteq> inputPath
                             then snd (call env (Unlink processingPath) s3) else s3))))"

definition addMetadata ::
  "'w env \<Rightarrow> string \<Rightarrow> string option \<Rightarrow> RayBanConfig \<Rightarrow> bool \<Rightarrow> 'w state \<Rightarrow> bool \<times> 'w state" where
  "addMetadata env inputPath outputPath config processVideo s =
     (case addMetadata_try env inputPath outputPath config processVideo s of
        (Inr u, s') \<Rightarrow> (True, s')
      | (Inl e, s') \<Rightarrow> (False, print (ErrorProcessingVideo e) s'))"

record batch_results =
  success :: nat
  failed :: nat
  total :: nat

text \<open>
  The loop of \<open>batchProcess\<close>. Its \<open>try\<close> block calls \<open>path.join\<close>, \<open>addMetadata\<close> and
  the console; \<open>addMetadata\<close> turns its own exceptions into \<open>false\<close>, so nothing in the
  block throws and the \<open>catch\<close> branch, which would count a failure too, is never entered.
\<close>

fun batchProcess_loop ::
  "'w env \<Rightarrow> string option \<Rightarrow> RayBanConfig \<Rightarrow> VideoFile list \<Rightarrow> batch_results \<Rightarrow> 'w state
     \<Rightarrow> batch_results \<times> 'w state" where
  "batchProcess_loop env outputDir config [] results s = (results, s)"
| "batchProcess_loop env outputDir config (videoFile # videoFiles) results s =
     (let outputPath = (if truthy outputDir
                        then Some (join [the outputDir, ''rayban_'' @ name videoFile])
                        else None)
      in case addMetadata env (path videoFile) outputPath config False s of
           (True, s') \<Rightarrow>
             batchProcess_loop env outputDir config videoFiles
               (results\<lparr>success := success results + 1\<rparr>) (print (Processed (name videoFile)) s')
         | (False, s') \<Rightarrow>
             batchProcess_loop env outputDir config videoFiles
               (results\<lparr>failed := failed results + 1\<rparr>) (print (Failed (name videoFile)) s'))"

definition batchProcess ::
  "'w env \<Rightarrow> string \<Rightarrow> string option \<Rightarrow> RayBanConfig \<Rightarrow> 'w state
     \<Rightarrow> (js_error + batch_results) \<times> 'w state" where
  "batchProcess env directory outputDir config s =
     (case getVideoFiles env (fst s) directory of
        Inl e \<Rightarrow> (Inl e, s)
      | Inr videoFiles \<Rightarrow>
          (case batchProcess_loop env outputDir config videoFiles
                  \<lparr>success = 0, failed = 0, total = length videoFiles\<rparr> s of
             (results, s') \<Rightarrow> (Inr results, s')))"

section \<open>ffmpeg-processor and video-processor: mergeVideos\<close>

definition filterComplex :: "string list \<Rightarrow> string" where
  "filterComplex inputPaths =
     concat (map (\<lambda>i. ''['' @ dec i @ '':v]['' @ dec i @ '':a]'') [0..<length inputPaths])
     @ ''concat=n='' @ dec (length inputPaths) @ '':v=1:a=1[outv][outa]''"

definition FFmpegProcessor_mergeVideos ::
  "'w env \<Rightarrow> string list \<Rightarrow> string \<Rightarrow> RayBanConfig \<Rightarrow> 'w state \<Rightarrow> (js_error + bool) \<times> 'w state" where
  "FFmpegProcessor_mergeVideos env inputPaths outputPath config s =
     (if length inputPaths < 2 then
        (Inl (Error ''At least 2 videos required for merging''), s)
      else
        case call env (FfmpegMerge inputPaths (filterComplex inputPaths) outputPath) s of
          (Some e, s') \<Rightarrow> (Inl e, s')
        | (None, s') \<Rightarrow> (Inr True, s'))"

definition mergedTags ::
  "RayBanMetadataOptions \<Rightarrow> string list \<Rightarrow> (string \<times> string option) list" where
  "mergedTags metadata inputPaths =
     writableTags (metadata\<lparr>comment :=
       comment metadata @ '' - Merged from '' @ dec (length inputPaths) @ '' clips''\<rparr>)"

definition VideoProcessor_mergeVideos ::
  "'w env \<Rightarrow> string list \<Rightarrow> string \<Rightarrow> RayBanConfig \<Rightarrow> 'w state \<Rightarrow> bool \<times> 'w state" where
  "VideoProcessor_mergeVideos env inputPaths outputPath config s =
     (case FFmpegProcessor_mergeVideos env inputPaths outputPath config s of
        (Inl e, s') \<Rightarrow> (False, print (ErrorMergingVideos e) s')
      | (Inr ok, s') \<Rightarrow>
          if ok then
            (let metadata = generateMetadata (new_Date env (fst s')) config in
             case call env (ExiftoolWrite outputPath (mergedTags metadata inputPaths)) s' of
               (Some e, s'') \<Rightarrow> (False, print (ErrorMergingVideos e) s'')
             | (None, s'') \<Rightarrow> (ok, s''))
          else (ok, s'))"

section \<open>Notions used to state the properties\<close>

text \<open>The camera-type preset a configuration selects.\<close>

definition camera_preset_of :: "RayBanConfig \<Rightarrow> camera_preset" where
  "camera_preset_of config =
     (if frontCamera config = Some True then FRONT_CAMERA else MAIN_CAMERA)"

text \<open>The camera-type default location: new-york for the front camera, else san-francisco.\<close>

definition default_location :: "RayBanConfig \<Rightarrow> location" where
  "default_location config =
     (if frontCamera config = Some True then loc ''40.7128'' ''-74.0060'' ''10''
      else loc ''37.7749'' ''-122.4194'' ''5'')"

text \<open>The timestamp format of the specification, \<open>YYYY:MM:DD HH:MM:SS\<close>.\<close>

definition is_digit :: "char \<Rightarrow> bool" where
  "is_digit c \<longleftrightarrow> c \<in> set ''0123456789''"

definition spec_date_format :: "string \<Rightarrow> bool" where
  "spec_date_format s \<longleftrightarrow>
     length s = 19 \<and>
     list_all (\<lambda>i. is_digit (s ! i)) [0, 1, 2, 3, 5, 6, 8, 9, 11, 12, 14, 15, 17, 18] \<and>
     s ! 4 = CHR '':'' \<and> s ! 7 = CHR '':'' \<and> s ! 10 = CHR '' '' \<and>
     s ! 13 = CHR '':'' \<and> s ! 16 = CHR '':''"

text \<open>
  The verification formula as the specification words it: all four required fields truthy
  and containing \<open>Ray-Ban\<close>, or the last field containing \<open>Meta\<close>.
\<close>

definition spec_verify :: "(string \<rightharpoonup> string) \<Rightarrow> bool" where
  "spec_verify tags \<longleftrightarrow>
     list_all (\<lambda>tag. truthy (tags tag) \<and> includes_str (the (tags tag)) ''Ray-Ban'')
       requiredTags
     \<or> (case tags (last requiredTags) of None \<Rightarrow> False | Some v \<Rightarrow> includes_str v ''Meta'')"

definition spec_verifyMetadata :: "'w env \<Rightarrow> 'w \<Rightarrow> string \<Rightarrow> bool" where
  "spec_verifyMetadata env w filePath =
     (case exiftool_read env w filePath of Inl e \<Rightarrow> False | Inr tags \<Rightarrow> spec_verify tags)"

text \<open>A field carries a brand marker: it is present and contains \<open>Ray-Ban\<close> or \<open>Meta\<close>.\<close>

definition has_brand :: "string option \<Rightarrow> bool" where
  "has_brand v =
     (case v of None \<Rightarrow> False
      | Some x \<Rightarrow> includes_str x ''Ray-Ban'' \<or> includes_str x ''Meta'')"



text \<open>
  What \<open>addMetadata\<close> returns for each file of a batch, in order, each call starting from
  the state the loop has reached.
\<close>

fun file_outcomes ::
  "'w env \<Rightarrow> string option \<Rightarrow> RayBanConfig \<Rightarrow> VideoFile list \<Rightarrow> 'w state \<Rightarrow> bool list" where
  "file_outcomes env outputDir config [] s = []"
| "file_outcomes env outputDir config (v # vs) s =
     (let outputPath = (if truthy outputDir
                        then Some (join [the outputDir, ''rayban_'' @ name v]) else None)
      in case addMetadata env (path v) outputPath config False s of
           (ok, s') \<Rightarrow>
             ok # file_outcomes env outputDir config vs
                    (print (if ok then Processed (name v) else Failed (name v)) s'))"



text \<open>
  The default file name of the specification:
  \<open><basename>_rayban[_front][_<operation>]<ext>\<close>.
\<close>

definition default_name :: "string \<Rightarrow> bool option \<Rightarrow> string option \<Rightarrow> string" where
  "default_name inputPath front sfx =
     basename inputPath (extname inputPath) @ ''_rayban'' @
     (if front = Some True then ''_front'' else []) @
     (if truthy sfx then ''_'' @ the sfx else []) @ extname inputPath"

text \<open>A path segment that names an entry: not empty, no slash, neither \<open>.\<close> nor \<open>..\<close>.\<close>

definition plain :: "string \<Rightarrow> bool" where
  "plain f \<longleftrightarrow> f \<noteq> [] \<and> CHR ''/'' \<notin> set f \<and> f \<noteq> ''.'' \<and> f \<noteq> ''..''"

text \<open>What \<open>normalize\<close> puts in front of a plain last segment that follows \<open>d/\<close>.\<close>

definition normal_prefix :: "string \<Rightarrow> string" where
  "normal_prefix d =
     (if is_slash (hd d) then ''/'' else []) @
     (let r = foldl (normalize_step (\<not> is_slash (hd d))) [] (split_slash d)
      in if r = [] then [] else join_slash r @ ''/'')"

text \<open>
  The segment lists that \<open>normalizeString\<close> produces: plain segments, after a leading run
  of \<open>..\<close> that only a relative path may have.
\<close>

inductive normal_segs :: "bool \<Rightarrow> string list \<Rightarrow> bool" for b :: bool where
  Nil: "normal_segs b []"
| DotDot: "b \<Longrightarrow> normal_segs b res \<Longrightarrow> \<forall>s \<in> set res. s = ''..'' \<Longrightarrow>
           normal_segs b (res @ [''..''])"
| Plain: "normal_segs b res \<Longrightarrow> plain s \<Longrightarrow> normal_segs b (res @ [s])"

text \<open>
  What \<open>normalize\<close> makes of \<open>d/x\<close>, from what it knows of \<open>d\<close>: whether it is
  absolute and the segments it has normalised to.
\<close>

definition normalize_from :: "bool \<Rightarrow> string list \<Rightarrow> string \<Rightarrow> string" where
  "normalize_from a res x =
     (let r = join_slash (foldl (normalize_step (\<not> a)) res (split_slash x));
          t = is_slash (last x)
      in if r = [] then (if a then ''/'' else if t then ''./'' else ''.'')
         else (if a then ''/'' else []) @ r @ (if t then ''/'' else []))"

section \<open>Concrete inputs\<close>

definition t0 :: utc_time where
  "t0 = \<lparr>year = 2024, month = 1, day = 15, hour = 14, minute = 30, second = 0,
          millisecond = 7\<rparr>"

definition muted_config :: RayBanConfig where
  "muted_config = \<lparr>frontCamera = Some True, hasAudio = Some False,
     customDate = Some ''2024:01:15 14:30:00'', latitude = Some ''1.5'',
     longitude = Some ''2.5'', altitude = None, locationName = Some ''tokyo'',
     customComment = Some ''mine''\<rparr>"

definition lone_latitude_config :: RayBanConfig where
  "lone_latitude_config = \<lparr>frontCamera = None, hasAudio = None, customDate = None,
     latitude = Some ''48.8566'', longitude = Some [], altitude = Some ''99'',
     locationName = Some ''tokyo'', customComment = None\<rparr>"

definition main_camera_tags :: "string \<rightharpoonup> string" where
  "main_camera_tags = map_of
     [(''Make'', ''Meta''), (''Model'', ''Ray-Ban Meta''),
      (''Software'', ''Meta Camera v3.0.1''),
      (''LensModel'', ''Ray-Ban Stories Wide Angle 12mm f/1.8'')]"

text \<open>
  A world with one directory \<open>vids\<close>: two video files, a text file and a subdirectory
  whose name ends in \<open>.mp4\<close>. Every file reads back the main-camera tags, and writing tags
  to \<open>vids/a_rayban.mp4\<close> fails.
\<close>

definition vids_stat :: "string \<Rightarrow> js_error + file_stat" where
  "vids_stat p =
     (if p \<in> set [''vids/a.mp4'', ''vids/notes.txt'', ''vids/b.MOV'']
        then Inr \<lparr>isFile = True, st_size = 10\<rparr>
      else if p = ''vids/sub.mp4'' then Inr \<lparr>isFile = False, st_size = 0\<rparr>
      else Inl (Error ''ENOENT''))"

definition vids_external :: "event \<Rightarrow> js_error option" where
  "vids_external e =
     (case e of
        ExiftoolWrite p tags \<Rightarrow>
          if p = ''vids/a_rayban.mp4'' then Some (Error ''write failed'') else None
      | _ \<Rightarrow> None)"

definition vids_env :: "unit env" where
  "vids_env = \<lparr>
     readdir = (\<lambda>w d. if d = ''vids'' then Inr [''a.mp4'', ''notes.txt'', ''sub.mp4'', ''b.MOV'']
                       else Inl (Error ''ENOENT'')),
     stat = (\<lambda>w p. vids_stat p),
     exiftool_read = (\<lambda>w p. Inr main_camera_tags),
     external = (\<lambda>w e. (vids_external e, w)),
     new_Date = (\<lambda>w. t0),
     Date_now = (\<lambda>w. 1705329000007)\<rparr>"

definition vids_files :: "VideoFile list" where
  "vids_files =
     [\<lparr>path = ''vids/a.mp4'', name = ''a.mp4'', size_field = 10, extension = ''.mp4''\<rparr>,
      \<lparr>path = ''vids/b.MOV'', name = ''b.MOV'', size_field = 10, extension = ''.MOV''\<rparr>]"

text \<open>The start of a run: the world and an empty trace.\<close>

definition vids_start :: "unit state" where
  "vids_start = ((), [])"

section \<open>Properties of generateMetadata\<close>

lemma front_flag:
  "(case frontCamera config of None \<Rightarrow> False | Some b \<Rightarrow> b) = (frontCamera config = Some True)"
  by (cases "frontCamera config") auto

lemma audio_flag:
  "(case hasAudio config of None \<Rightarrow> True | Some b \<Rightarrow> b) = (hasAudio config \<noteq> Some False)"
  by (cases "hasAudio config") auto

lemma gps_fields:
  "gpsLatitude (generateMetadata now config) = lat (resolve_location config)"
  "gpsLongitude (generateMetadata now config) = lon (resolve_location config)"
  "gpsAltitude (generateMetadata now config) = alt (resolve_location config)"
  by (simp_all add: generateMetadata_def Let_def)

lemma LOCATIONS_get_own: "map_of LOCATIONS n = Some l \<Longrightarrow> LOCATIONS_get n = Some l"
  by (simp add: LOCATIONS_get_def)

lemma LOCATIONS_get_absent:
  "map_of LOCATIONS n = None \<Longrightarrow> n \<notin> set object_prototype_keys \<Longrightarrow> LOCATIONS_get n = None"
  by (simp add: LOCATIONS_get_def)

lemma LOCATIONS_get_defaults:
  "LOCATIONS_get ''new-york'' = Some (loc ''40.7128'' ''-74.0060'' ''10'')"
  "LOCATIONS_get ''san-francisco'' = Some (loc ''37.7749'' ''-122.4194'' ''5'')"
  by (simp_all add: LOCATIONS_get_def LOCATIONS_def)

text \<open>
  The three rules of the location, for every name that is an own key of the table or no
  property of the table object at all.
\<close>

lemma resolve_location_explicit:
  "truthy (latitude config) \<Longrightarrow> truthy (longitude config) \<Longrightarrow>
   resolve_location config =
     \<lparr>lat = latitude config, lon = longitude config,
      alt = Some (or_else (altitude config) ''5'')\<rparr>"
  by (simp add: resolve_location_def)

lemma resolve_location_named:
  "\<not> (truthy (latitude config) \<and> truthy (longitude config)) \<Longrightarrow>
   locationName config = Some n \<Longrightarrow> map_of LOCATIONS n = Some l \<Longrightarrow>
   resolve_location config = l"
  by (cases "n = []") (auto simp add: resolve_location_def LOCATIONS_get_own LOCATIONS_def)

lemma resolve_location_default:
  "\<not> (truthy (latitude config) \<and> truthy (longitude config)) \<Longrightarrow>
   (\<forall>n. locationName config = Some n \<longrightarrow>
        map_of LOCATIONS n = None \<and> n \<notin> set object_prototype_keys) \<Longrightarrow>
   resolve_location config = default_location config"
  by (cases "locationName config")
     (auto simp add: resolve_location_def LOCATIONS_get_absent LOCATIONS_get_defaults
        default_location_def front_flag)

lemma resolve_location_unnamed:
  assumes "\<not> (truthy (latitude config) \<and> truthy (longitude config))"
    and "\<not> truthy (locationName config)"
  shows "resolve_location config = default_location config"
proof -
  from assms(1) have c: "(truthy (latitude config) \<and> truthy (longitude config)) = False"
    by simp
  show ?thesis
    unfolding resolve_location_def c
    using assms(2) by (simp add: LOCATIONS_get_defaults default_location_def front_flag)
qed

lemma resolve_location_ignores_lone:
  "\<not> (truthy (latitude config) \<and> truthy (longitude config)) \<Longrightarrow>
   resolve_location config =
     resolve_location (config\<lparr>latitude := None, longitude := None, altitude := None\<rparr>)"
  by (auto simp add: resolve_location_def)

text \<open>
  C2. The precedence of the GPS fields is: explicit latitude and longitude, else the named
  preset, else the camera default. The code does not follow it for a location name that is
  no key of the preset table but names a property every object inherits, such as
  \<open>constructor\<close>: the lookup yields the inherited value, which is truthy, so the name
  counts as found, and the three GPS fields of the record are undefined instead of the
  camera default (which the same configuration without the name gets).
\<close>

theorem generateMetadata_inherited_location_name:
  "map_of LOCATIONS ''constructor'' = None \<and>
   gpsLatitude (generateMetadata t0 (empty_config\<lparr>locationName := Some ''constructor''\<rparr>)) = None \<and>
   gpsLongitude (generateMetadata t0 (empty_config\<lparr>locationName := Some ''constructor''\<rparr>)) = None \<and>
   gpsAltitude (generateMetadata t0 (empty_config\<lparr>locationName := Some ''constructor''\<rparr>)) = None \<and>
   gpsLatitude (generateMetadata t0 empty_config) = Some ''37.7749''"
  by (simp add: gps_fields resolve_location_def empty_config_def LOCATIONS_get_def LOCATIONS_def
        object_prototype_keys_def inherited_value_def loc_def)

text \<open>The two timestamps are one value, and a non-empty custom date is that value.\<close>

lemma dates_identical:
  "createDate (generateMetadata now config) = modifyDate (generateMetadata now config)"
  by (simp add: generateMetadata_def Let_def)

lemma custom_date_verbatim:
  "customDate config = Some d \<Longrightarrow> d \<noteq> [] \<Longrightarrow>
   createDate (generateMetadata now config) = d \<and> modifyDate (generateMetadata now config) = d"
  by (simp add: generateMetadata_def Let_def)

lemma length_pad: "length (pad w n) = w"
  by (induction w arbitrary: n) auto

lemma digit_not_T: "d < 10 \<Longrightarrow> digit d \<noteq> CHR ''T''"
proof -
  assume "d < 10"
  then have "''0123456789'' ! d \<in> set ''0123456789''" by (intro nth_mem) simp
  then show ?thesis unfolding digit_def by auto
qed

lemma pad_no_T: "CHR ''T'' \<notin> set (pad w n)"
proof (induction w arbitrary: n)
  case 0
  show ?case by simp
next
  case (Suc w)
  have "digit (n mod 10) \<noteq> CHR ''T''" by (rule digit_not_T) simp
  with Suc show ?case by auto
qed

lemma pad_2: "pad 2 n = [digit (n div 10 mod 10), digit (n mod 10)]"
proof -
  have "pad (Suc (Suc 0)) n = [digit (n div 10 mod 10), digit (n mod 10)]" by simp
  then show ?thesis by (simp only: numeral_2_eq_2)
qed

lemma pad_3:
  "pad 3 n = [digit (n div 10 div 10 mod 10), digit (n div 10 mod 10), digit (n mod 10)]"
proof -
  have "pad (Suc 2) n = pad 2 (n div 10) @ [digit (n mod 10)]" by (rule pad.simps)
  moreover have "Suc 2 = 3" by simp
  ultimately show ?thesis by (simp add: pad_2)
qed

lemma pad_4:
  "pad 4 n = [digit (n div 10 div 10 div 10 mod 10), digit (n div 10 div 10 mod 10),
              digit (n div 10 mod 10), digit (n mod 10)]"
proof -
  have "pad (Suc 3) n = pad 3 (n div 10) @ [digit (n mod 10)]" by (rule pad.simps)
  moreover have "Suc 3 = 4" by simp
  ultimately show ?thesis by (simp add: pad_3)
qed

lemma replace_first_append: "c \<notin> set xs \<Longrightarrow> replace_first c r (xs @ c # ys) = xs @ r @ ys"
  by (induction xs) auto

text \<open>
  Without a custom date, and in the years 0 to 9999, the timestamp is the date with dashes,
  a space, and the time with colons.
\<close>

lemma default_date_shape:
  assumes "\<not> truthy (customDate config)" "0 \<le> year now" "year now \<le> 9999"
  shows "createDate (generateMetadata now config) =
     pad 4 (nat (year now)) @ ''-'' @ pad 2 (month now) @ ''-'' @ pad 2 (day now) @ '' '' @
     pad 2 (hour now) @ '':'' @ pad 2 (minute now) @ '':'' @ pad 2 (second now)"
proof -
  let ?A = "pad 4 (nat (year now)) @ ''-'' @ pad 2 (month now) @ ''-'' @ pad 2 (day now)"
  let ?B = "pad 2 (hour now) @ '':'' @ pad 2 (minute now) @ '':'' @ pad 2 (second now)"
  let ?C = "''.'' @ pad 3 (millisecond now) @ ''Z''"
  have E: "createDate (generateMetadata now config) =
             take 19 (replace_first CHR ''T'' '' '' (toISOString now))"
    using assms(1) by (cases "customDate config") (auto simp: generateMetadata_def Let_def)
  have iso: "toISOString now = ?A @ CHR ''T'' # (?B @ ?C)"
    using assms(2,3) by (simp add: toISOString_def)
  have noT: "CHR ''T'' \<notin> set ?A" by (simp add: pad_no_T)
  have "replace_first CHR ''T'' '' '' (toISOString now) = ?A @ '' '' @ (?B @ ?C)"
    unfolding iso by (rule replace_first_append[OF noT])
  then have "replace_first CHR ''T'' '' '' (toISOString now) = (?A @ '' '' @ ?B) @ ?C" by simp
  moreover have "length (?A @ '' '' @ ?B) = 19" by (simp add: length_pad)
  ultimately have "take 19 (replace_first CHR ''T'' '' '' (toISOString now)) = ?A @ '' '' @ ?B"
    by (metis append_eq_conv_conj)
  then show ?thesis using E by simp
qed

text \<open>
  C3. A custom date appears verbatim in both timestamps, and without one the two
  timestamps are identical and in the format \<open>YYYY:MM:DD HH:MM:SS\<close>. The code does not
  produce that format: on 15 January 2024 at 14:30:00 UTC the empty configuration gets
  \<open>2024-01-15 14:30:00\<close> in both fields, with dashes in the date, where the format asks
  for \<open>2024:01:15 14:30:00\<close>.
\<close>

theorem generateMetadata_default_date_dashes:
  "createDate (generateMetadata t0 empty_config) = ''2024-01-15 14:30:00'' \<and>
   modifyDate (generateMetadata t0 empty_config) = ''2024-01-15 14:30:00'' \<and>
   \<not> spec_date_format (createDate (generateMetadata t0 empty_config)) \<and>
   spec_date_format ''2024:01:15 14:30:00''"
proof -
  have iso: "toISOString t0 = ''2024-01-15T14:30:00.007Z''"
    by (simp add: toISOString_def t0_def pad_2 pad_3 pad_4 digit_def)
  have d: "createDate (generateMetadata t0 empty_config) = ''2024-01-15 14:30:00''"
    "modifyDate (generateMetadata t0 empty_config) = ''2024-01-15 14:30:00''"
    by (simp_all add: generateMetadata_def Let_def empty_config_def iso)
  have "\<not> spec_date_format ''2024-01-15 14:30:00''"
    by (simp add: spec_date_format_def)
  moreover have "spec_date_format ''2024:01:15 14:30:00''"
    by (simp add: spec_date_format_def is_digit_def)
  ultimately show ?thesis using d by simp
qed

text \<open>
  C4. With audio disabled the record has zero audio channels and the microphone
  \<open>None\<close>, whatever the camera type, location, comment or other overrides; with audio
  enabled or unspecified both fields are those of the camera-type preset.
\<close>

theorem generateMetadata_audio:
  "(hasAudio config = Some False \<longrightarrow>
      audioChannels (generateMetadata now config) = 0 \<and>
      microphone (generateMetadata now config) = ''None'') \<and>
   (hasAudio config \<noteq> Some False \<longrightarrow>
      audioChannels (generateMetadata now config) = p_audioChannels (camera_preset_of config) \<and>
      microphone (generateMetadata now config) = p_microphone (camera_preset_of config))"
  by (simp add: generateMetadata_def Let_def front_flag audio_flag camera_preset_of_def)

theorem generateMetadata_audio_witness:
  "hasAudio muted_config = Some False \<and>
   audioChannels (generateMetadata t0 muted_config) = 0 \<and>
   microphone (generateMetadata t0 muted_config) = ''None'' \<and>
   hasAudio empty_config \<noteq> Some False \<and>
   audioChannels (generateMetadata t0 empty_config) = 4 \<and>
   microphone (generateMetadata t0 empty_config) = ''5-microphone array with noise cancellation''"
  using generateMetadata_audio [of muted_config t0] generateMetadata_audio [of empty_config t0]
  by (simp add: muted_config_def empty_config_def camera_preset_of_def MAIN_CAMERA_def)

text \<open>
  C8. The hemisphere letters of the record are those of the camera-type preset, hence
  always \<open>N\<close> and \<open>W\<close>, also where the resolved longitude is eastern: the named locations
  tokyo (139.6503) and paris (2.3522), and an explicit positive longitude.
\<close>

theorem generateMetadata_hemisphere_refs:
  "gpsLatitudeRef (generateMetadata now config) = p_gpsLatitudeRef (camera_preset_of config) \<and>
   gpsLongitudeRef (generateMetadata now config) = p_gpsLongitudeRef (camera_preset_of config) \<and>
   gpsLatitudeRef (generateMetadata now config) = N \<and>
   gpsLongitudeRef (generateMetadata now config) = W \<and>
   gpsLongitude (generateMetadata now (empty_config\<lparr>locationName := Some ''tokyo''\<rparr>))
     = Some ''139.6503'' \<and>
   gpsLongitude (generateMetadata now (empty_config\<lparr>locationName := Some ''paris''\<rparr>))
     = Some ''2.3522'' \<and>
   gpsLongitude (generateMetadata now
       (empty_config\<lparr>latitude := Some ''35.0'', longitude := Some ''139.0''\<rparr>))
     = Some ''139.0''"
  by (simp add: generateMetadata_def Let_def front_flag camera_preset_of_def FRONT_CAMERA_def
        MAIN_CAMERA_def resolve_location_def empty_config_def LOCATIONS_get_def LOCATIONS_def
        loc_def)

text \<open>
  C9. When latitude and longitude are not both non-empty (one is absent or the empty
  string), the explicit-coordinate branch is skipped: the record is the one of the same
  configuration without any coordinate, so a lone coordinate leaves no trace in it, and
  the location is the named preset, or the camera default when no name is given.
\<close>

theorem generateMetadata_lone_coordinate:
  assumes "\<not> (truthy (latitude config) \<and> truthy (longitude config))"
  shows "generateMetadata now config =
           generateMetadata now (config\<lparr>latitude := None, longitude := None, altitude := None\<rparr>) \<and>
         (\<forall>n l. locationName config = Some n \<and> map_of LOCATIONS n = Some l \<longrightarrow>
                gpsLatitude (generateMetadata now config) = lat l \<and>
                gpsLongitude (generateMetadata now config) = lon l \<and>
                gpsAltitude (generateMetadata now config) = alt l) \<and>
         (\<not> truthy (locationName config) \<longrightarrow>
                gpsLatitude (generateMetadata now config) = lat (default_location config) \<and>
                gpsLongitude (generateMetadata now config) = lon (default_location config) \<and>
                gpsAltitude (generateMetadata now config) = alt (default_location config))"
proof -
  have "generateMetadata now config =
          generateMetadata now (config\<lparr>latitude := None, longitude := None, altitude := None\<rparr>)"
    using resolve_location_ignores_lone[OF assms] by (simp add: generateMetadata_def Let_def)
  moreover have "\<forall>n l. locationName config = Some n \<and> map_of LOCATIONS n = Some l \<longrightarrow>
                gpsLatitude (generateMetadata now config) = lat l \<and>
                gpsLongitude (generateMetadata now config) = lon l \<and>
                gpsAltitude (generateMetadata now config) = alt l"
    using resolve_location_named[OF assms] by (simp add: gps_fields)
  moreover have "\<not> truthy (locationName config) \<longrightarrow>
                gpsLatitude (generateMetadata now config) = lat (default_location config) \<and>
                gpsLongitude (generateMetadata now config) = lon (default_location config) \<and>
                gpsAltitude (generateMetadata now config) = alt (default_location config)"
    using resolve_location_unnamed[OF assms] by (simp add: gps_fields)
  ultimately show ?thesis by blast
qed

theorem generateMetadata_lone_coordinate_witness:
  "\<not> (truthy (latitude lone_latitude_config) \<and> truthy (longitude lone_latitude_config)) \<and>
   locationName lone_latitude_config = Some ''tokyo'' \<and>
   map_of LOCATIONS ''tokyo'' = Some (loc ''35.6762'' ''139.6503'' ''20'') \<and>
   gpsLatitude (generateMetadata t0 lone_latitude_config) = Some ''35.6762'' \<and>
   gpsLongitude (generateMetadata t0 lone_latitude_config) = Some ''139.6503'' \<and>
   gpsAltitude (generateMetadata t0 lone_latitude_config) = Some ''20''"
proof -
  have h: "\<not> (truthy (latitude lone_latitude_config) \<and> truthy (longitude lone_latitude_config))"
    by (simp add: lone_latitude_config_def)
  have n: "locationName lone_latitude_config = Some ''tokyo''"
    by (simp add: lone_latitude_config_def)
  have m: "map_of LOCATIONS ''tokyo'' = Some (loc ''35.6762'' ''139.6503'' ''20'')"
    by (simp add: LOCATIONS_def)
  from generateMetadata_lone_coordinate [OF h, of t0] n m
  have "gpsLatitude (generateMetadata t0 lone_latitude_config) = lat (loc ''35.6762'' ''139.6503'' ''20'') \<and>
        gpsLongitude (generateMetadata t0 lone_latitude_config) = lon (loc ''35.6762'' ''139.6503'' ''20'') \<and>
        gpsAltitude (generateMetadata t0 lone_latitude_config) = alt (loc ''35.6762'' ''139.6503'' ''20'')"
    by blast
  with h n m show ?thesis by (simp add: loc_def)
qed

text \<open>
  C10. A custom comment applies only when it is a non-empty string: when it is absent or
  empty the comment is the default comment of the camera-type preset, and a non-empty
  custom comment is the comment, exactly.
\<close>

theorem generateMetadata_comment:
  "(\<not> truthy (customComment config) \<longrightarrow>
      comment (generateMetadata now config) = p_defaultComment (camera_preset_of config)) \<and>
   (\<forall>c. customComment config = Some c \<and> c \<noteq> [] \<longrightarrow>
      comment (generateMetadata now config) = c)"
  by (cases "customComment config")
     (auto simp add: generateMetadata_def Let_def front_flag camera_preset_of_def)

theorem generateMetadata_comment_witness:
  "customComment muted_config = Some ''mine'' \<and>
   comment (generateMetadata t0 muted_config) = ''mine'' \<and>
   \<not> truthy (customComment (empty_config\<lparr>customComment := Some []\<rparr>)) \<and>
   comment (generateMetadata t0 (empty_config\<lparr>customComment := Some []\<rparr>)) =
     ''Captured with Meta Ray-Ban Smart Glasses - Hands-free recording''"
  using generateMetadata_comment [of muted_config t0]
    generateMetadata_comment [of "empty_config\<lparr>customComment := Some []\<rparr>" t0]
  by (simp add: muted_config_def empty_config_def camera_preset_of_def MAIN_CAMERA_def)

section \<open>Properties of verifyMetadata\<close>

lemma includes_str_Nil: "includes_str v []"
  by (cases v) auto

lemma tag_check_brand:
  "tag_check tags tag =
     (if tags tag = None then Inl TypeError else Inr (has_brand (tags tag)))"
  by (auto simp: tag_check_def has_brand_def includes_str_Nil split: option.splits)

lemma every_tag_check:
  "(case every (tag_check tags) ts of Inl e \<Rightarrow> False | Inr b \<Rightarrow> b) =
     list_all (\<lambda>t. has_brand (tags t)) ts"
  by (induction ts) (auto simp: tag_check_brand has_brand_def)

text \<open>
  C1, as amended. \<open>verifyMetadata\<close> is true exactly when the tags can be read and each
  of the four required fields Make, Model, Software and LensModel is present and contains
  \<open>Ray-Ban\<close> or \<open>Meta\<close>; a missing field or an unreadable file gives false.
\<close>

theorem verifyMetadata_each_field:
  "verifyMetadata env w filePath =
     (case exiftool_read env w filePath of
        Inl e \<Rightarrow> False
      | Inr tags \<Rightarrow> has_brand (tags ''Make'') \<and> has_brand (tags ''Model'') \<and>
                    has_brand (tags ''Software'') \<and> has_brand (tags ''LensModel''))"
proof (cases "exiftool_read env w filePath")
  case (Inl e)
  then show ?thesis by (simp add: verifyMetadata_def)
next
  case (Inr tags)
  have "verifyMetadata env w filePath =
          (case every (tag_check tags) requiredTags of Inl e \<Rightarrow> False | Inr b \<Rightarrow> b)"
    by (simp add: verifyMetadata_def Inr)
  also have "\<dots> = list_all (\<lambda>t. has_brand (tags t)) requiredTags"
    by (rule every_tag_check)
  also have "\<dots> = (has_brand (tags ''Make'') \<and> has_brand (tags ''Model'') \<and>
                    has_brand (tags ''Software'') \<and> has_brand (tags ''LensModel''))"
    by (simp add: requiredTags_def)
  finally show ?thesis by (simp add: Inr)
qed

text \<open>
  C1 as stated fails on the tags the program itself writes for the main camera: every field
  contains a brand marker, so the code accepts the file, but Make is \<open>Meta\<close> without
  \<open>Ray-Ban\<close> and the last field, LensModel, has no \<open>Meta\<close>, so the stated formula
  rejects it.
\<close>

theorem verifyMetadata_spec_formula_counterexample:
  "verifyMetadata vids_env () ''clip_rayban.mp4'' \<and>
   \<not> spec_verifyMetadata vids_env () ''clip_rayban.mp4''"
  by (simp add: verifyMetadata_def spec_verifyMetadata_def spec_verify_def vids_env_def
        main_camera_tags_def requiredTags_def tag_check_def)

section \<open>Properties of mergeVideos\<close>

text \<open>
  C6. With fewer than two input paths the merge of the transcoder adapter fails with the
  error \<open>At least 2 videos required for merging\<close> and leaves the world and the trace as
  they were: no external call is made. The orchestrator's merge reports the failure as
  \<open>false\<close>; the only event it adds is the console line with that error, so no tool is
  invoked and no output is written.
\<close>

theorem mergeVideos_insufficient_inputs:
  assumes "length inputPaths < 2"
  shows "FFmpegProcessor_mergeVideos env inputPaths outputPath config s =
           (Inl (Error ''At least 2 videos required for merging''), s) \<and>
         VideoProcessor_mergeVideos env inputPaths outputPath config s =
           (False, (fst s, snd s @
              [Console (ErrorMergingVideos (Error ''At least 2 videos required for merging''))]))"
  using assms
  by (simp add: FFmpegProcessor_mergeVideos_def VideoProcessor_mergeVideos_def print_def)

theorem mergeVideos_insufficient_inputs_witness:
  "length [''only.mp4''] < 2 \<and>
   FFmpegProcessor_mergeVideos vids_env [''only.mp4''] ''out.mp4'' empty_config vids_start =
     (Inl (Error ''At least 2 videos required for merging''), vids_start) \<and>
   VideoProcessor_mergeVideos vids_env [''only.mp4''] ''out.mp4'' empty_config vids_start =
     (False, ((),
        [Console (ErrorMergingVideos (Error ''At least 2 videos required for merging''))])) \<and>
   VideoProcessor_mergeVideos vids_env [] ''out.mp4'' empty_config vids_start =
     (False, ((),
        [Console (ErrorMergingVideos (Error ''At least 2 videos required for merging''))]))"
  using mergeVideos_insufficient_inputs [of "[''only.mp4'']" vids_env "''out.mp4''" empty_config vids_start]
    mergeVideos_insufficient_inputs [of "[]" vids_env "''out.mp4''" empty_config vids_start]
  by (simp add: vids_start_def)

section \<open>Properties of batchProcess\<close>















lemma vids_enumeration: "getVideoFiles vids_env (fst vids_start) ''vids'' = Inr vids_files"
  by (simp add: getVideoFiles_def vids_env_def vids_stat_def vids_files_def vids_start_def Let_def
        join_def normalize_def normalizeString_def normalize_step_def is_slash_def
        isVideoFile_def extname_def last_component_def toLowerCase_def lower_char_def
        upper_chars_def lower_chars_def VIDEO_EXTENSIONS_def)


text \<open>
  The run on that directory: the write for the first file fails, the second file is
  processed all the same, and the counters are one success and one failure of two.
\<close>

lemma vids_outputs:
  "generateOutputPath ''vids/a.mp4'' None None = ''vids/a_rayban.mp4''"
  "generateOutputPath ''vids/b.MOV'' None None = ''vids/b_rayban.MOV''"
  by (simp_all add: generateOutputPath_def Let_def extname_def last_component_def is_slash_def
        basename_def dirname_def join_def normalize_def normalizeString_def normalize_step_def
        suffix_def)

lemma vids_isVideoFile: "isVideoFile ''vids/a.mp4''" "isVideoFile ''vids/b.MOV''"
  by (simp_all add: isVideoFile_def extname_def last_component_def toLowerCase_def lower_char_def
        upper_chars_def lower_chars_def VIDEO_EXTENSIONS_def is_slash_def)

lemma vids_addMetadata_a:
  "addMetadata vids_env ''vids/a.mp4'' None empty_config False s =
     (False, (fst s, snd s @
        [CopyFile ''vids/a.mp4'' ''vids/a_rayban.mp4'',
         ExiftoolWrite ''vids/a_rayban.mp4'' (writableTags (generateMetadata t0 empty_config)),
         Console (ErrorProcessingVideo (Error ''write failed''))]))"
  by (simp add: addMetadata_def addMetadata_try_def vids_isVideoFile vids_outputs Let_def
        call_def print_def vids_env_def vids_external_def empty_config_def)

lemma vids_addMetadata_b:
  "addMetadata vids_env ''vids/b.MOV'' None empty_config False s =
     (True, (fst s, snd s @
        [CopyFile ''vids/b.MOV'' ''vids/b_rayban.MOV'',
         ExiftoolWrite ''vids/b_rayban.MOV''
           (writableTags (generateMetadata t0 empty_config))]))"
  by (simp add: addMetadata_def addMetadata_try_def vids_isVideoFile vids_outputs Let_def
        call_def vids_env_def vids_external_def empty_config_def)

lemma vids_file_outcomes:
  "file_outcomes vids_env None empty_config vids_files vids_start = [False, True]"
  by (simp add: vids_files_def vids_addMetadata_a vids_addMetadata_b)

lemma batchProcess_vids_run:
  "batchProcess vids_env ''vids'' None empty_config vids_start =
     (Inr \<lparr>success = 1, failed = 1, total = 2\<rparr>,
      ((), [CopyFile ''vids/a.mp4'' ''vids/a_rayban.mp4'',
            ExiftoolWrite ''vids/a_rayban.mp4''
              (writableTags (generateMetadata t0 empty_config)),
            Console (ErrorProcessingVideo (Error ''write failed'')),
            Console (Failed ''a.mp4''),
            CopyFile ''vids/b.MOV'' ''vids/b_rayban.MOV'',
            ExiftoolWrite ''vids/b_rayban.MOV''
              (writableTags (generateMetadata t0 empty_config)),
            Console (Processed ''b.MOV'')]))"
proof -
  have "batchProcess vids_env ''vids'' None empty_config vids_start =
          (case batchProcess_loop vids_env None empty_config vids_files
                  \<lparr>success = 0, failed = 0, total = length vids_files\<rparr> vids_start of
             (results, s') \<Rightarrow> (Inr results, s'))"
    by (simp only: batchProcess_def vids_enumeration sum.case)
  then show ?thesis
    by (simp add: vids_files_def vids_addMetadata_a vids_addMetadata_b print_def vids_start_def)
qed

section \<open>Properties of generateOutputPath\<close>

text \<open>Segments and normalisation of a path that ends in a plain segment.\<close>

lemma split_slash_nonempty: "split_slash xs \<noteq> []"
  by (induction xs) (auto split: list.splits)

lemma split_slash_noslash: "CHR ''/'' \<notin> set f \<Longrightarrow> split_slash f = [f]"
  by (induction f) (auto simp: is_slash_def)

lemma split_slash_append: "split_slash (xs @ CHR ''/'' # ys) = split_slash xs @ split_slash ys"
proof (induction xs)
  case Nil
  show ?case by (simp add: is_slash_def)
next
  case (Cons c xs)
  obtain s ss where s: "split_slash xs = s # ss"
    using split_slash_nonempty[of xs] by (cases "split_slash xs") auto
  show ?case using Cons s by (simp add: is_slash_def)
qed

lemma normalize_step_plain: "plain f \<Longrightarrow> normalize_step b res f = res @ [f]"
  by (simp add: normalize_step_def plain_def)

lemma join_slash_snoc: "join_slash (res @ [f]) = (if res = [] then f else join_slash res @ ''/'' @ f)"
  by (induction res rule: join_slash.induct) auto

lemma normalize_dir_file:
  assumes "plain f" "d \<noteq> []"
  shows "normalize (d @ ''/'' @ f) = normal_prefix d @ f"
proof -
  let ?p = "d @ CHR ''/'' # f"
  let ?abs = "is_slash (hd d)"
  let ?res = "foldl (normalize_step (\<not> ?abs)) [] (split_slash d)"
  from assms(1) have f: "f \<noteq> []" "CHR ''/'' \<notin> set f" by (simp_all add: plain_def)
  have hd: "hd ?p = hd d" using assms(2) by simp
  have "last f \<noteq> CHR ''/''" using f by (metis last_in_set)
  then have last: "\<not> is_slash (last ?p)" using f(1) by (simp add: is_slash_def)
  have segs: "split_slash ?p = split_slash d @ [f]"
    using split_slash_append[of d f] split_slash_noslash[OF f(2)] by simp
  have fold: "foldl (normalize_step (\<not> ?abs)) [] (split_slash ?p) = ?res @ [f]"
    by (simp add: segs normalize_step_plain[OF assms(1)])
  have r: "normalizeString ?p (\<not> ?abs) = (if ?res = [] then f else join_slash ?res @ ''/'' @ f)"
    unfolding normalizeString_def fold by (rule join_slash_snoc)
  then have rne: "normalizeString ?p (\<not> ?abs) \<noteq> []" using f(1) by auto
  have "normalize ?p = (if ?abs then ''/'' else []) @ normalizeString ?p (\<not> ?abs)"
    using rne last by (simp add: normalize_def Let_def hd del: append.simps)
  then show ?thesis using r by (simp add: normal_prefix_def Let_def)
qed

lemma join_two: "d \<noteq> [] \<Longrightarrow> f \<noteq> [] \<Longrightarrow> join [d, f] = normalize (d @ ''/'' @ f)"
  by (simp add: join_def)

lemma last_component_no_slash: "CHR ''/'' \<notin> set (last_component p)"
proof
  assume "CHR ''/'' \<in> set (last_component p)"
  then have "CHR ''/'' \<in> set (takeWhile (\<lambda>c. \<not> is_slash c) (dropWhile is_slash (rev p)))"
    by (simp only: last_component_def set_rev)
  then have "\<not> is_slash CHR ''/''" by (rule set_takeWhileD[THEN conjunct2])
  then show False by (simp add: is_slash_def)
qed

lemma extname_cases:
  "extname p = [] \<or>
   (\<exists>pre e. last_component p = pre @ CHR ''.'' # e \<and> pre \<noteq> [] \<and> extname p = CHR ''.'' # e)"
proof (cases "extname p = []")
  case True
  then show ?thesis by simp
next
  case False
  let ?rc = "rev (last_component p)"
  let ?P = "\<lambda>c. c \<noteq> CHR ''.''"
  from False have dot: "CHR ''.'' \<in> set ?rc" and pre: "tl (dropWhile ?P ?rc) \<noteq> []"
    and ext: "extname p = CHR ''.'' # rev (takeWhile ?P ?rc)"
    by (auto simp: extname_def Let_def split: if_splits)
  from dot have "dropWhile ?P ?rc \<noteq> []" by (simp add: dropWhile_eq_Nil_conv)
  moreover have "hd (dropWhile ?P ?rc) = CHR ''.''"
    using calculation hd_dropWhile[of ?P ?rc] by auto
  ultimately have dw: "dropWhile ?P ?rc = CHR ''.'' # tl (dropWhile ?P ?rc)"
    by (cases "dropWhile ?P ?rc") auto
  have "?rc = takeWhile ?P ?rc @ dropWhile ?P ?rc" by simp
  then have "?rc = takeWhile ?P ?rc @ CHR ''.'' # tl (dropWhile ?P ?rc)" using dw by simp
  then have "last_component p = rev (takeWhile ?P ?rc @ CHR ''.'' # tl (dropWhile ?P ?rc))"
    by (metis rev_rev_ident)
  then have "last_component p = rev (tl (dropWhile ?P ?rc)) @ CHR ''.'' # rev (takeWhile ?P ?rc)"
    by simp
  with pre ext show ?thesis by auto
qed

lemma last_component_suffix: "length (last_component p) \<le> length p"
proof -
  have "length (takeWhile (\<lambda>c. \<not> is_slash c) (dropWhile is_slash (rev p))) \<le> length (dropWhile is_slash (rev p))"
    by (rule length_takeWhile_le)
  also have "\<dots> \<le> length (rev p)" by (rule length_dropWhile_le)
  finally show ?thesis by (simp add: last_component_def)
qed

lemma stem_ext: "basename p (extname p) @ extname p = last_component p"
proof -
  from extname_cases[of p] show ?thesis
  proof
    assume "extname p = []"
    then show ?thesis by (simp add: basename_def)
  next
    assume "\<exists>pre e. last_component p = pre @ CHR ''.'' # e \<and> pre \<noteq> [] \<and> extname p = CHR ''.'' # e"
    then obtain pre e where c: "last_component p = pre @ CHR ''.'' # e" and pre: "pre \<noteq> []"
      and x: "extname p = CHR ''.'' # e" by blast
    have suf: "suffix (extname p) (last_component p)" by (simp add: c x suffix_def)
    have ne: "last_component p \<noteq> extname p" using c x pre by simp
    have len: "length (extname p) \<le> length p"
      using last_component_suffix[of p] c x by simp
    have "extname p \<noteq> p"
    proof
      assume "extname p = p"
      then have "length (last_component p) \<le> length (extname p)" using last_component_suffix[of p] by simp
      then show False using c x pre by simp
    qed
    then have "basename p (extname p) = take (length (last_component p) - length (extname p)) (last_component p)"
      using suf ne len x by (simp add: basename_def Let_def)
    then have "basename p (extname p) = pre" by (simp add: c x)
    then show ?thesis by (simp add: c x)
  qed
qed


lemma dropWhile_noslash: "CHR ''/'' \<notin> set xs \<Longrightarrow> dropWhile (\<lambda>c. \<not> is_slash c) (xs @ ys) = dropWhile (\<lambda>c. \<not> is_slash c) ys"
  by (induction xs) (auto simp: is_slash_def)

lemma dropWhile_slash_id: "xs \<noteq> [] \<Longrightarrow> \<not> is_slash (hd xs) \<Longrightarrow> dropWhile is_slash xs = xs"
  by (cases xs) auto

lemma dirname_bare:
  assumes "p \<noteq> []" "CHR ''/'' \<notin> set p"
  shows "dirname p = ''.''"
proof -
  from assms obtain c cs where p: "p = c # cs" by (cases p) auto
  with assms(2) have c: "\<not> is_slash c" and cs: "CHR ''/'' \<notin> set (rev cs)" by (auto simp: is_slash_def)
  have "dropWhile (\<lambda>c. \<not> is_slash c) (dropWhile is_slash (rev cs)) = []"
  proof -
    have "CHR ''/'' \<notin> set (dropWhile is_slash (rev cs))" using cs by (meson set_dropWhileD)
    then show ?thesis using dropWhile_noslash[of "dropWhile is_slash (rev cs)" "[]"] by simp
  qed
  then show ?thesis using c by (simp add: dirname_def p)
qed

lemma dirname_dir_file:
  assumes "f \<noteq> []" "CHR ''/'' \<notin> set f"
  shows "dirname (d @ CHR ''/'' # f) = (if d = [] then ''/'' else if d = ''/'' then ''//'' else d)"
proof (cases d)
  case Nil
  have "dropWhile (\<lambda>c. \<not> is_slash c) (dropWhile is_slash (rev f)) = []"
  proof -
    have "CHR ''/'' \<notin> set (dropWhile is_slash (rev f))" using assms(2) by (metis set_dropWhileD set_rev)
    then show ?thesis using dropWhile_noslash[of "dropWhile is_slash (rev f)" "[]"] by simp
  qed
  then show ?thesis using Nil by (simp add: dirname_def is_slash_def)
next
  case (Cons c d')
  have hdf: "rev f \<noteq> []" "\<not> is_slash (hd (rev f))"
    using assms by (auto simp: is_slash_def hd_rev) (metis last_in_set)
  have "dropWhile is_slash (rev f @ CHR ''/'' # rev d') = rev f @ CHR ''/'' # rev d'"
    using hdf by (intro dropWhile_slash_id) auto
  moreover have "dropWhile (\<lambda>c. \<not> is_slash c) (rev f @ CHR ''/'' # rev d') = CHR ''/'' # rev d'"
    using dropWhile_noslash[of "rev f" "CHR ''/'' # rev d'"] assms(2) by (simp add: is_slash_def)
  ultimately have r: "dropWhile (\<lambda>c. \<not> is_slash c) (dropWhile is_slash (rev (d' @ CHR ''/'' # f))) = CHR ''/'' # rev d'"
    by simp
  have D: "dirname (c # (d' @ CHR ''/'' # f)) = (if is_slash c \<and> d' = [] then ''//'' else c # d')"
    by (simp only: dirname_def list.case Let_def r) simp
  show ?thesis
  proof (cases "is_slash c \<and> d' = []")
    case True
    then have "d = ''/''" using Cons by (simp add: is_slash_def)
    then show ?thesis using D True Cons by simp
  next
    case False
    then have "d \<noteq> ''/''" using Cons by (auto simp: is_slash_def)
    then show ?thesis using Cons D False by auto
  qed
qed

lemma path_split:
  assumes "p \<noteq> []" "\<not> is_slash (last p)"
  shows "\<exists>pre. p = pre @ last_component p \<and> (pre = [] \<or> (\<exists>d. pre = d @ ''/''))"
proof -
  let ?Q = "\<lambda>c. \<not> is_slash c"
  have "rev p \<noteq> []" "\<not> is_slash (hd (rev p))" using assms by (simp_all add: hd_rev)
  then have dw: "dropWhile is_slash (rev p) = rev p" by (rule dropWhile_slash_id)
  then have lc: "last_component p = rev (takeWhile ?Q (rev p))" by (simp add: last_component_def)
  have "p = rev (takeWhile ?Q (rev p) @ dropWhile ?Q (rev p))" by simp
  also have "\<dots> = rev (dropWhile ?Q (rev p)) @ rev (takeWhile ?Q (rev p))" by (rule rev_append)
  finally have split: "p = rev (dropWhile ?Q (rev p)) @ last_component p" unfolding lc .
  have "rev (dropWhile ?Q (rev p)) = [] \<or> (\<exists>d. rev (dropWhile ?Q (rev p)) = d @ ''/'')"
  proof (cases "dropWhile ?Q (rev p)")
    case Nil
    then show ?thesis by simp
  next
    case (Cons x xs)
    then have "is_slash x" using hd_dropWhile[of ?Q "rev p"] by auto
    then show ?thesis using Cons by (simp add: is_slash_def)
  qed
  with split show ?thesis by blast
qed

lemma normal_prefix_dot: "normal_prefix ''.'' = []"
  by (simp add: normal_prefix_def is_slash_def normalize_step_def)

lemma normal_prefix_root: "normal_prefix ''/'' = ''/''"
  by (simp add: normal_prefix_def is_slash_def normalize_step_def)

lemma normal_prefix_root2: "normal_prefix ''//'' = ''/''"
  by (simp add: normal_prefix_def is_slash_def normalize_step_def)

lemma generateOutputPath_join:
  "generateOutputPath p front sfx = join [dirname p, default_name p front sfx]"
  by (simp add: generateOutputPath_def default_name_def Let_def)

lemma default_name_plain:
  assumes "\<forall>x. sfx = Some x \<longrightarrow> CHR ''/'' \<notin> set x"
  shows "plain (default_name p front sfx)"
proof -
  have "set (basename p (extname p)) \<union> set (extname p) = set (last_component p)"
    using stem_ext[of p] by (metis set_append)
  then have ns: "CHR ''/'' \<notin> set (basename p (extname p))" "CHR ''/'' \<notin> set (extname p)"
    using last_component_no_slash[of p] by auto
  have sf: "CHR ''/'' \<notin> set (if truthy sfx then ''_'' @ the sfx else [])"
    using assms by (cases sfx) auto
  have noslash: "CHR ''/'' \<notin> set (default_name p front sfx)"
    using ns sf by (auto simp: default_name_def)
  have us: "CHR ''_'' \<in> set (default_name p front sfx)" by (simp add: default_name_def)
  then have "default_name p front sfx \<noteq> []" "default_name p front sfx \<noteq> ''.''" "default_name p front sfx \<noteq> ''..''"
    by auto
  with noslash show ?thesis by (simp add: plain_def)
qed

lemma dirname_nonempty: "dirname p \<noteq> []"
  by (auto simp: dirname_def Let_def split: list.splits)

text \<open>
  For a path in normal form whose last component names a file, the default output path
  replaces the last component and keeps everything before it.
\<close>

lemma same_directory:
  assumes norm: "normalize p = p" and last: "\<not> is_slash (last p)"
    and dot: "last_component p \<noteq> ''.''" and dotdot: "last_component p \<noteq> ''..''"
    and sfx: "\<forall>x. sfx = Some x \<longrightarrow> CHR ''/'' \<notin> set x"
  shows "\<exists>pre. p = pre @ last_component p \<and>
               generateOutputPath p front sfx = pre @ default_name p front sfx"
proof -
  let ?f = "last_component p"
  let ?n = "default_name p front sfx"
  have pne: "p \<noteq> []" using norm by (auto simp: normalize_def)
  from path_split[OF pne last] obtain pre where p: "p = pre @ ?f"
    and pre: "pre = [] \<or> (\<exists>d. pre = d @ ''/'')" by blast
  have fne: "?f \<noteq> []"
  proof
    assume "?f = []"
    with p pre pne obtain d where "p = d @ ''/''" by auto
    with last show False by (simp add: is_slash_def)
  qed
  have fns: "CHR ''/'' \<notin> set ?f" by (rule last_component_no_slash)
  have fplain: "plain ?f" using fne fns dot dotdot by (simp add: plain_def)
  have nplain: "plain ?n" by (rule default_name_plain[OF sfx])
  then have nne: "?n \<noteq> []" by (simp add: plain_def)
  have out: "generateOutputPath p front sfx = normal_prefix (dirname p) @ ?n"
    using generateOutputPath_join[of p front sfx] join_two[OF dirname_nonempty nne, of p]
      normalize_dir_file[OF nplain dirname_nonempty, of p] by simp
  from pre have "normal_prefix (dirname p) = pre"
  proof
    assume e: "pre = []"
    then have "dirname p = ''.''" using p fne fns dirname_bare[of p] by simp
    then show ?thesis using e by (simp add: normal_prefix_dot)
  next
    assume "\<exists>d. pre = d @ ''/''"
    then obtain d where d: "pre = d @ ''/''" ..
    then have pd: "p = d @ CHR ''/'' # ?f" using p by simp
    have dn: "dirname p = (if d = [] then ''/'' else if d = ''/'' then ''//'' else d)"
      using dirname_dir_file[OF fne fns, of d] pd by simp
    show ?thesis
    proof (cases "d = []")
      case True
      then show ?thesis using dn d by (simp add: normal_prefix_root)
    next
      case False
      have "normalize (d @ ''/'' @ ?f) = normal_prefix d @ ?f"
        by (rule normalize_dir_file[OF fplain False])
      then have "normal_prefix d @ ?f = d @ ''/'' @ ?f" using norm pd by simp
      then have np: "normal_prefix d = d @ ''/''" by simp
      have "d \<noteq> ''/''"
      proof
        assume "d = ''/''"
        with np show False by (simp add: normal_prefix_root)
      qed
      then show ?thesis using dn d np False by simp
    qed
  qed
  with out p show ?thesis by auto
qed


text \<open>Normal segment lists are what the normalisation yields, and it leaves them alone.\<close>

lemma normal_segs_snoc:
  "normal_segs b (res @ [s]) \<longleftrightarrow>
     normal_segs b res \<and> (plain s \<or> (s = ''..'' \<and> b \<and> (\<forall>t \<in> set res. t = ''..'')))"
proof
  assume "normal_segs b (res @ [s])"
  then show "normal_segs b res \<and> (plain s \<or> (s = ''..'' \<and> b \<and> (\<forall>t \<in> set res. t = ''..'')))"
    by (cases rule: normal_segs.cases) auto
next
  assume "normal_segs b res \<and> (plain s \<or> (s = ''..'' \<and> b \<and> (\<forall>t \<in> set res. t = ''..'')))"
  then show "normal_segs b (res @ [s])"
    by (auto intro: normal_segs.intros)
qed

lemma normal_segs_butlast: "normal_segs b res \<Longrightarrow> normal_segs b (butlast res)"
  by (cases res rule: rev_cases) (auto simp: normal_segs_snoc intro: normal_segs.Nil)

lemma normal_segs_last_dotdot:
  assumes "normal_segs b res" "res \<noteq> []" "last res = ''..''"
  shows "\<forall>t \<in> set res. t = ''..''"
proof -
  from assms(2) obtain r s where r: "res = r @ [s]" by (cases res rule: rev_cases) auto
  with assms(3) have s: "s = ''..''" by simp
  from assms(1) r s have "\<forall>t \<in> set r. t = ''..''"
    by (auto simp: normal_segs_snoc plain_def)
  with r s show ?thesis by auto
qed

lemma normalize_step_normal:
  assumes "normal_segs b res" "CHR ''/'' \<notin> set seg"
  shows "normal_segs b (normalize_step b res seg)"
proof (cases "seg = [] \<or> seg = ''.''")
  case True
  then show ?thesis using assms(1) by (auto simp: normalize_step_def)
next
  case False
  show ?thesis
  proof (cases "seg = ''..''")
    case dd: True
    show ?thesis
    proof (cases "res \<noteq> [] \<and> last res \<noteq> ''..''")
      case True
      then have "normalize_step b res seg = butlast res" using dd by (simp add: normalize_step_def)
      then show ?thesis using normal_segs_butlast[OF assms(1)] by simp
    next
      case nb: False
      show ?thesis
      proof (cases b)
        case True
        have all: "\<forall>t \<in> set res. t = ''..''"
        proof (cases "res = []")
          case True then show ?thesis by simp
        next
          case False
          with nb have "last res = ''..''" by simp
          then show ?thesis using normal_segs_last_dotdot[OF assms(1) False] by simp
        qed
        have "normalize_step b res seg = res @ [''..'']" using dd nb True by (auto simp: normalize_step_def)
        then show ?thesis using assms(1) True all by (simp add: normal_segs_snoc)
      next
        case False
        then have "normalize_step b res seg = res" using dd nb by (auto simp: normalize_step_def)
        then show ?thesis using assms(1) by simp
      qed
    qed
  next
    case nd: False
    then have p: "plain seg" using False assms(2) by (simp add: plain_def)
    then show ?thesis using assms(1) by (simp add: normalize_step_plain normal_segs_snoc)
  qed
qed

lemma foldl_normal:
  assumes "\<forall>s \<in> set segs. CHR ''/'' \<notin> set s"
  shows "normal_segs b (foldl (normalize_step b) [] segs)"
  using assms
proof (induction segs rule: rev_induct)
  case Nil
  show ?case by (simp add: normal_segs.Nil)
next
  case (snoc s segs)
  then show ?case by (simp add: normalize_step_normal)
qed

lemma foldl_normal_id:
  "normal_segs b (acc @ res) \<Longrightarrow> foldl (normalize_step b) acc res = acc @ res"
proof (induction res rule: rev_induct)
  case Nil
  show ?case by simp
next
  case (snoc s res)
  from snoc.prems have n: "normal_segs b ((acc @ res) @ [s])" by simp
  then have n1: "normal_segs b (acc @ res)"
    and c: "plain s \<or> (s = ''..'' \<and> b \<and> (\<forall>t \<in> set (acc @ res). t = ''..''))"
    unfolding normal_segs_snoc by simp_all
  have f: "foldl (normalize_step b) acc res = acc @ res" by (rule snoc.IH[OF n1])
  from c have "normalize_step b (acc @ res) s = (acc @ res) @ [s]"
  proof
    assume "plain s" then show ?thesis by (rule normalize_step_plain)
  next
    assume d: "s = ''..'' \<and> b \<and> (\<forall>t \<in> set (acc @ res). t = ''..'')"
    then have "acc @ res = [] \<or> last (acc @ res) = ''..''"
      by (metis last_in_set)
    then show ?thesis using d by (auto simp: normalize_step_def)
  qed
  then show ?case using f by simp
qed

lemma normal_segs_elems:
  "normal_segs b res \<Longrightarrow> \<forall>s \<in> set res. s \<noteq> [] \<and> CHR ''/'' \<notin> set s"
  by (induction rule: normal_segs.induct) (auto simp: plain_def)

lemma split_slash_segs: "\<forall>s \<in> set (split_slash xs). CHR ''/'' \<notin> set s"
proof (induction xs)
  case Nil
  show ?case by simp
next
  case (Cons c xs)
  obtain s ss where s: "split_slash xs = s # ss"
    using split_slash_nonempty[of xs] by (cases "split_slash xs") auto
  with Cons show ?case by (auto simp: is_slash_def)
qed

lemma split_join_slash:
  "res \<noteq> [] \<Longrightarrow> \<forall>s \<in> set res. CHR ''/'' \<notin> set s \<Longrightarrow> split_slash (join_slash res) = res"
proof (induction res rule: join_slash.induct)
  case 1
  then show ?case by simp
next
  case (2 s)
  then show ?case by (simp add: split_slash_noslash)
next
  case (3 s t ss)
  have "split_slash (s @ CHR ''/'' # join_slash (t # ss)) = split_slash s @ split_slash (join_slash (t # ss))"
    by (rule split_slash_append)
  then show ?case using 3 by (simp add: split_slash_noslash)
qed

lemma join_slash_hd:
  "res \<noteq> [] \<Longrightarrow> \<forall>s \<in> set res. s \<noteq> [] \<Longrightarrow> join_slash res \<noteq> [] \<and> hd (join_slash res) = hd (hd res)"
  by (induction res rule: join_slash.induct) auto


lemma last_component_append:
  assumes "f \<noteq> []" "CHR ''/'' \<notin> set f" "pre = [] \<or> is_slash (last pre)"
  shows "last_component (pre @ f) = f"
proof -
  let ?Q = "\<lambda>c. \<not> is_slash c"
  have hd: "rev f \<noteq> []" "\<not> is_slash (hd (rev f))"
    using assms(1,2) by (auto simp: is_slash_def hd_rev) (metis last_in_set)
  then have "rev f @ rev pre \<noteq> []" "\<not> is_slash (hd (rev f @ rev pre))" by auto
  then have dw: "dropWhile is_slash (rev f @ rev pre) = rev f @ rev pre"
    by (rule dropWhile_slash_id)
  have all: "\<forall>c \<in> set (rev f). ?Q c" using assms(2) by (auto simp: is_slash_def)
  have "takeWhile ?Q (rev f @ rev pre) = rev f"
  proof (cases "pre = []")
    case True
    then show ?thesis using all by simp
  next
    case False
    with assms(3) have "is_slash (hd (rev pre))" by (simp add: hd_rev)
    moreover from False have "rev pre \<noteq> []" by simp
    ultimately have "takeWhile ?Q (rev pre) = []" by (cases "rev pre") auto
    moreover have "takeWhile ?Q (rev f @ rev pre) = rev f @ takeWhile ?Q (rev pre)"
      using all by (intro takeWhile_append2) auto
    ultimately show ?thesis by simp
  qed
  then show ?thesis using dw by (simp add: last_component_def)
qed

lemma normal_prefix_shape: "normal_prefix d = [] \<or> is_slash (last (normal_prefix d))"
  by (auto simp: normal_prefix_def Let_def is_slash_def)

text \<open>The default output path of every input path.\<close>

lemma generateOutputPath_normal_prefix:
  assumes "\<forall>x. sfx = Some x \<longrightarrow> CHR ''/'' \<notin> set x"
  shows "generateOutputPath p front sfx = normal_prefix (dirname p) @ default_name p front sfx"
proof -
  have nplain: "plain (default_name p front sfx)" by (rule default_name_plain[OF assms])
  then have nne: "default_name p front sfx \<noteq> []" by (simp add: plain_def)
  show ?thesis
    using generateOutputPath_join[of p front sfx] join_two[OF dirname_nonempty nne, of p]
      normalize_dir_file[OF nplain dirname_nonempty, of p] by simp
qed

lemma output_last_component:
  assumes "\<forall>y. sfx = Some y \<longrightarrow> CHR ''/'' \<notin> set y"
  shows "last_component (generateOutputPath p front sfx) = default_name p front sfx"
proof -
  let ?n = "default_name p front sfx"
  have "plain ?n" by (rule default_name_plain[OF assms])
  then have n: "?n \<noteq> []" "CHR ''/'' \<notin> set ?n" by (simp_all add: plain_def)
  show ?thesis
    unfolding generateOutputPath_normal_prefix[OF assms]
    by (rule last_component_append[OF n normal_prefix_shape])
qed

text \<open>
  The directory of the output path is as absolute as the directory of the input path and
  normalises to the same segments, so every path resolves alike from both.
\<close>

lemma normalize_under:
  assumes "d \<noteq> []" "x \<noteq> []"
  shows "normalize (d @ CHR ''/'' # x) =
           normalize_from (is_slash (hd d))
             (foldl (normalize_step (\<not> is_slash (hd d))) [] (split_slash d)) x"
proof -
  have hd: "hd (d @ CHR ''/'' # x) = hd d" using assms(1) by simp
  have last: "last (d @ CHR ''/'' # x) = last x" using assms(2) by simp
  have segs: "split_slash (d @ CHR ''/'' # x) = split_slash d @ split_slash x"
    by (rule split_slash_append)
  show ?thesis
    unfolding normalize_def normalizeString_def normalize_from_def hd last segs foldl_append
    by (simp add: Let_def)
qed

lemma output_dir_segs:
  assumes "d \<noteq> []" "f \<noteq> []" "CHR ''/'' \<notin> set f"
  shows "dirname (normal_prefix d @ f) \<noteq> [] \<and>
         is_slash (hd (dirname (normal_prefix d @ f))) = is_slash (hd d) \<and>
         foldl (normalize_step (\<not> is_slash (hd d))) [] (split_slash (dirname (normal_prefix d @ f)))
           = foldl (normalize_step (\<not> is_slash (hd d))) [] (split_slash d)"
proof -
  let ?a = "is_slash (hd d)"
  let ?res = "foldl (normalize_step (\<not> ?a)) [] (split_slash d)"
  have nres: "normal_segs (\<not> ?a) ?res" by (rule foldl_normal[OF split_slash_segs])
  show ?thesis
  proof (cases "?res = []")
    case True
    show ?thesis
    proof (cases ?a)
      case a: True
      then have np: "normal_prefix d = ''/''" using True by (simp add: normal_prefix_def)
      have "dirname ([] @ CHR ''/'' # f) = ''/''"
        using dirname_dir_file[OF assms(2,3), of "[]"] by simp
      then have "dirname (normal_prefix d @ f) = ''/''" using np by simp
      then show ?thesis using a True by (simp add: is_slash_def normalize_step_def)
    next
      case a: False
      then have np: "normal_prefix d = []" using True by (simp add: normal_prefix_def)
      have "dirname f = ''.''" by (rule dirname_bare[OF assms(2,3)])
      then have "dirname (normal_prefix d @ f) = ''.''" using np by simp
      then show ?thesis using a True by (simp add: is_slash_def normalize_step_def)
    qed
  next
    case False
    let ?js = "join_slash ?res"
    let ?d' = "(if ?a then ''/'' else []) @ ?js"
    from normal_segs_elems[OF nres] have el: "\<forall>s \<in> set ?res. s \<noteq> []"
      and ns: "\<forall>s \<in> set ?res. CHR ''/'' \<notin> set s" by auto
    from join_slash_hd[OF False el] have js: "?js \<noteq> []" and hdjs: "hd ?js = hd (hd ?res)"
      by auto
    have "hd ?res \<in> set ?res" using False by simp
    then have "hd ?res \<noteq> []" "CHR ''/'' \<notin> set (hd ?res)" using el ns by auto
    then have "hd (hd ?res) \<noteq> CHR ''/''" by (metis hd_in_set)
    then have hdns: "\<not> is_slash (hd ?js)" using hdjs by (simp add: is_slash_def)
    have np: "normal_prefix d = ?d' @ ''/''"
      using False by (simp add: normal_prefix_def Let_def)
    have d'ne: "?d' \<noteq> []" using js by simp
    have d'nr: "?d' \<noteq> ''/''"
    proof (cases ?a)
      case True
      then show ?thesis using js by simp
    next
      case False
      then have "?d' = ?js" by simp
      moreover have "?js \<noteq> ''/''" using hdns by (auto simp: is_slash_def)
      ultimately show ?thesis by simp
    qed
    have "dirname (?d' @ CHR ''/'' # f) = ?d'"
      using dirname_dir_file[OF assms(2,3), of ?d'] d'ne d'nr by simp
    then have dn: "dirname (normal_prefix d @ f) = ?d'" using np by simp
    have hd': "is_slash (hd ?d') = ?a"
    proof (cases ?a)
      case True
      then show ?thesis by (simp add: is_slash_def)
    next
      case False
      then show ?thesis using hdns by simp
    qed
    have sj: "split_slash ?js = ?res" by (rule split_join_slash[OF False ns])
    have fold: "foldl (normalize_step (\<not> ?a)) [] (split_slash ?d') = ?res"
    proof (cases ?a)
      case True
      have "split_slash ([] @ CHR ''/'' # ?js) = split_slash [] @ split_slash ?js"
        by (rule split_slash_append)
      then have "split_slash ?d' = [] # ?res" using True sj by simp
      then have "foldl (normalize_step (\<not> ?a)) [] (split_slash ?d')
                   = foldl (normalize_step (\<not> ?a)) [] ?res"
        by (simp add: normalize_step_def)
      also have "\<dots> = ?res" using foldl_normal_id[of "\<not> ?a" "[]" ?res] nres by simp
      finally show ?thesis .
    next
      case False
      then have "split_slash ?d' = ?res" using sj by simp
      then show ?thesis using foldl_normal_id[of "\<not> ?a" "[]" ?res] nres by simp
    qed
    show ?thesis unfolding dn using d'ne hd' fold by simp
  qed
qed

lemma output_resolves_alike:
  assumes "\<forall>y. sfx = Some y \<longrightarrow> CHR ''/'' \<notin> set y" and "x \<noteq> []"
  shows "join [dirname (generateOutputPath p front sfx), x] = join [dirname p, x]"
proof -
  let ?n = "default_name p front sfx"
  let ?o = "dirname (generateOutputPath p front sfx)"
  have nplain: "plain ?n" by (rule default_name_plain[OF assms(1)])
  then have n: "?n \<noteq> []" "CHR ''/'' \<notin> set ?n" by (simp_all add: plain_def)
  have out: "generateOutputPath p front sfx = normal_prefix (dirname p) @ ?n"
    by (rule generateOutputPath_normal_prefix[OF assms(1)])
  from output_dir_segs[OF dirname_nonempty n, of p]
  have one: "?o \<noteq> []" and a: "is_slash (hd ?o) = is_slash (hd (dirname p))"
    and f: "foldl (normalize_step (\<not> is_slash (hd (dirname p)))) [] (split_slash ?o)
          = foldl (normalize_step (\<not> is_slash (hd (dirname p)))) [] (split_slash (dirname p))"
    unfolding out by simp_all
  have "join [?o, x] = normalize (?o @ CHR ''/'' # x)"
    using join_two[OF one assms(2)] by simp
  also have "\<dots> = normalize_from (is_slash (hd ?o))
      (foldl (normalize_step (\<not> is_slash (hd ?o))) [] (split_slash ?o)) x"
    by (rule normalize_under[OF one assms(2)])
  also have "\<dots> = normalize_from (is_slash (hd (dirname p)))
      (foldl (normalize_step (\<not> is_slash (hd (dirname p)))) [] (split_slash (dirname p))) x"
    by (simp only: a f)
  also have "\<dots> = normalize (dirname p @ CHR ''/'' # x)"
    by (rule normalize_under[OF dirname_nonempty assms(2), symmetric])
  also have "\<dots> = join [dirname p, x]"
    using join_two[OF dirname_nonempty assms(2), of p] by simp
  finally show ?thesis .
qed

text \<open>
  C7. For every input path, the output path chosen when none is given is the input's
  directory joined (by both declarations of the function) with the name
  \<open><basename>_rayban\<close>, then \<open>_front\<close> for the front camera, then \<open>_\<close> and the operation
  suffix when there is one, then the input's extension, where basename and extension
  together are the input's last component. That name is the last component of the output
  path, and the output lies in the directory of the input: every non-empty path resolves
  from the output's directory to what it resolves to from the input's directory. This
  holds without a suffix, with the suffix \<open>optimized\<close> that the program passes, and with
  any suffix that has no slash. For an input path in normal form that names a file, the
  output path is the input path with only its last component replaced. The input
  \<open>clip.mp4\<close> with the main camera and no operation gives \<open>clip_rayban.mp4\<close>.
\<close>

theorem generateOutputPath_default_name:
  "generateOutputPath p front sfx = join [dirname p, default_name p front sfx] \<and>
   generateOutputPath_first p front = generateOutputPath p front None \<and>
   basename p (extname p) @ extname p = last_component p \<and>
   last_component (generateOutputPath p front None) = default_name p front None \<and>
   last_component (generateOutputPath p front (Some ''optimized''))
     = default_name p front (Some ''optimized'') \<and>
   (\<forall>x. x \<noteq> [] \<longrightarrow>
      join [dirname (generateOutputPath p front None), x] = join [dirname p, x]) \<and>
   (\<forall>x. x \<noteq> [] \<longrightarrow>
      join [dirname (generateOutputPath p front (Some ''optimized'')), x] = join [dirname p, x]) \<and>
   ((\<forall>y. sfx = Some y \<longrightarrow> CHR ''/'' \<notin> set y) \<longrightarrow>
      generateOutputPath p front sfx = normal_prefix (dirname p) @ default_name p front sfx \<and>
      last_component (generateOutputPath p front sfx) = default_name p front sfx \<and>
      (\<forall>x. x \<noteq> [] \<longrightarrow>
         join [dirname (generateOutputPath p front sfx), x] = join [dirname p, x])) \<and>
   (normalize p = p \<and> \<not> is_slash (last p) \<and>
    last_component p \<noteq> ''.'' \<and> last_component p \<noteq> ''..'' \<and>
    (\<forall>x. sfx = Some x \<longrightarrow> CHR ''/'' \<notin> set x) \<longrightarrow>
    (\<exists>pre. p = pre @ last_component p \<and>
           generateOutputPath p front sfx = pre @ default_name p front sfx)) \<and>
   generateOutputPath ''clip.mp4'' None None = ''clip_rayban.mp4'' \<and>
   dirname ''clip_rayban.mp4'' = dirname ''clip.mp4'' \<and>
   generateOutputPath ''./clip.mp4'' None None = ''clip_rayban.mp4'' \<and>
   generateOutputPath ''a//clip.mp4'' (Some True) (Some ''optimized'')
     = ''a/clip_rayban_front_optimized.mp4''"
proof -
  have none: "\<forall>y. (None :: string option) = Some y \<longrightarrow> CHR ''/'' \<notin> set y" by simp
  have opt: "\<forall>y. Some ''optimized'' = Some y \<longrightarrow> CHR ''/'' \<notin> set y" by simp
  have c1: "generateOutputPath p front sfx = join [dirname p, default_name p front sfx]"
    by (rule generateOutputPath_join)
  have c2: "generateOutputPath_first p front = generateOutputPath p front None"
    by (simp add: generateOutputPath_first_def generateOutputPath_def)
  have c3: "basename p (extname p) @ extname p = last_component p" by (rule stem_ext)
  have c4: "last_component (generateOutputPath p front None) = default_name p front None"
    by (rule output_last_component[OF none])
  have c5: "last_component (generateOutputPath p front (Some ''optimized''))
              = default_name p front (Some ''optimized'')"
    by (rule output_last_component[OF opt])
  have c6: "\<forall>x. x \<noteq> [] \<longrightarrow>
      join [dirname (generateOutputPath p front None), x] = join [dirname p, x]"
    using output_resolves_alike[OF none] by blast
  have c7: "\<forall>x. x \<noteq> [] \<longrightarrow>
      join [dirname (generateOutputPath p front (Some ''optimized'')), x] = join [dirname p, x]"
    using output_resolves_alike[OF opt] by blast
  have c8: "(\<forall>y. sfx = Some y \<longrightarrow> CHR ''/'' \<notin> set y) \<longrightarrow>
      generateOutputPath p front sfx = normal_prefix (dirname p) @ default_name p front sfx \<and>
      last_component (generateOutputPath p front sfx) = default_name p front sfx \<and>
      (\<forall>x. x \<noteq> [] \<longrightarrow>
         join [dirname (generateOutputPath p front sfx), x] = join [dirname p, x])"
  proof
    assume s: "\<forall>y. sfx = Some y \<longrightarrow> CHR ''/'' \<notin> set y"
    have "\<forall>x. x \<noteq> [] \<longrightarrow>
         join [dirname (generateOutputPath p front sfx), x] = join [dirname p, x]"
      using output_resolves_alike[OF s] by blast
    then show "generateOutputPath p front sfx = normal_prefix (dirname p) @ default_name p front sfx \<and>
      last_component (generateOutputPath p front sfx) = default_name p front sfx \<and>
      (\<forall>x. x \<noteq> [] \<longrightarrow>
         join [dirname (generateOutputPath p front sfx), x] = join [dirname p, x])"
      using generateOutputPath_normal_prefix[OF s] output_last_component[OF s] by (intro conjI)
  qed
  have c9: "normalize p = p \<and> \<not> is_slash (last p) \<and>
      last_component p \<noteq> ''.'' \<and> last_component p \<noteq> ''..'' \<and>
      (\<forall>x. sfx = Some x \<longrightarrow> CHR ''/'' \<notin> set x) \<longrightarrow>
      (\<exists>pre. p = pre @ last_component p \<and>
             generateOutputPath p front sfx = pre @ default_name p front sfx)"
  proof (intro impI, elim conjE)
    assume "normalize p = p" "\<not> is_slash (last p)" "last_component p \<noteq> ''.''"
      "last_component p \<noteq> ''..''" "\<forall>x. sfx = Some x \<longrightarrow> CHR ''/'' \<notin> set x"
    then show "\<exists>pre. p = pre @ last_component p \<and>
             generateOutputPath p front sfx = pre @ default_name p front sfx"
      by (rule same_directory)
  qed
  have c10: "generateOutputPath ''clip.mp4'' None None = ''clip_rayban.mp4''"
    and c12: "generateOutputPath ''./clip.mp4'' None None = ''clip_rayban.mp4''"
    and c13: "generateOutputPath ''a//clip.mp4'' (Some True) (Some ''optimized'')
               = ''a/clip_rayban_front_optimized.mp4''"
    by (simp_all add: generateOutputPath_def Let_def extname_def last_component_def is_slash_def
          basename_def dirname_def join_def normalize_def normalizeString_def
          normalize_step_def suffix_def)
  have c11: "dirname ''clip_rayban.mp4'' = dirname ''clip.mp4''"
    by (simp add: dirname_def is_slash_def)
  from c1 c2 c3 c4 c5 c6 c7 c8 c9 c10 c11 c12 c13 show ?thesis by (intro conjI)
qed

theorem generateOutputPath_default_name_witness:
  "CHR ''/'' \<notin> set ''optimized'' \<and>
   ''other.mov'' \<noteq> [] \<and>
   normalize ''a//clip.mp4'' \<noteq> ''a//clip.mp4'' \<and>
   last_component (generateOutputPath ''a//clip.mp4'' (Some True) (Some ''optimized''))
     = ''clip_rayban_front_optimized.mp4'' \<and>
   join [dirname (generateOutputPath ''a//clip.mp4'' (Some True) (Some ''optimized'')),
         ''other.mov'']
     = join [dirname ''a//clip.mp4'', ''other.mov''] \<and>
   normalize ''videos/clip.mp4'' = ''videos/clip.mp4'' \<and>
   \<not> is_slash (last ''videos/clip.mp4'') \<and>
   last_component ''videos/clip.mp4'' = ''clip.mp4'' \<and>
   (\<exists>pre. ''videos/clip.mp4'' = pre @ ''clip.mp4'' \<and>
          generateOutputPath ''videos/clip.mp4'' (Some True) (Some ''optimized'') =
            pre @ ''clip_rayban_front_optimized.mp4'')"
proof -
  have s: "\<forall>y. Some ''optimized'' = Some y \<longrightarrow> CHR ''/'' \<notin> set y" by simp
  have x: "''other.mov'' \<noteq> []" by simp
  have nn: "normalize ''a//clip.mp4'' \<noteq> ''a//clip.mp4''"
    by (simp add: normalize_def normalizeString_def normalize_step_def is_slash_def)
  have da: "default_name ''a//clip.mp4'' (Some True) (Some ''optimized'') =
             ''clip_rayban_front_optimized.mp4''"
    by (simp add: default_name_def extname_def basename_def last_component_def is_slash_def
          suffix_def)
  note A = generateOutputPath_default_name
      [of "''a//clip.mp4''" "Some True" "Some ''optimized''"]
  note A8 = A [THEN conjunct2, THEN conjunct2, THEN conjunct2, THEN conjunct2, THEN conjunct2,
      THEN conjunct2, THEN conjunct2, THEN conjunct1]
  from A8 s have A8': "generateOutputPath ''a//clip.mp4'' (Some True) (Some ''optimized'')
        = normal_prefix (dirname ''a//clip.mp4'') @
          default_name ''a//clip.mp4'' (Some True) (Some ''optimized'') \<and>
      last_component (generateOutputPath ''a//clip.mp4'' (Some True) (Some ''optimized''))
        = default_name ''a//clip.mp4'' (Some True) (Some ''optimized'') \<and>
      (\<forall>x. x \<noteq> [] \<longrightarrow>
         join [dirname (generateOutputPath ''a//clip.mp4'' (Some True) (Some ''optimized'')), x]
           = join [dirname ''a//clip.mp4'', x])"
    by (rule mp)
  from A8' have "last_component (generateOutputPath ''a//clip.mp4'' (Some True)
        (Some ''optimized'')) = default_name ''a//clip.mp4'' (Some True) (Some ''optimized'')"
    by (elim conjE)
  then have lc: "last_component (generateOutputPath ''a//clip.mp4'' (Some True)
        (Some ''optimized'')) = ''clip_rayban_front_optimized.mp4''"
    unfolding da .
  from A8' have "\<forall>x. x \<noteq> [] \<longrightarrow>
         join [dirname (generateOutputPath ''a//clip.mp4'' (Some True) (Some ''optimized'')), x]
           = join [dirname ''a//clip.mp4'', x]"
    by (elim conjE)
  then have "''other.mov'' \<noteq> [] \<longrightarrow>
         join [dirname (generateOutputPath ''a//clip.mp4'' (Some True) (Some ''optimized'')),
               ''other.mov'']
           = join [dirname ''a//clip.mp4'', ''other.mov'']"
    by (rule spec)
  from this x have jn: "join [dirname (generateOutputPath ''a//clip.mp4'' (Some True)
        (Some ''optimized'')), ''other.mov''] = join [dirname ''a//clip.mp4'', ''other.mov'']"
    by (rule mp)
  have n: "normalize ''videos/clip.mp4'' = ''videos/clip.mp4''"
    by (simp add: normalize_def normalizeString_def normalize_step_def is_slash_def)
  have l: "\<not> is_slash (last ''videos/clip.mp4'')" by (simp add: is_slash_def)
  have c: "last_component ''videos/clip.mp4'' = ''clip.mp4''"
    by (simp add: last_component_def is_slash_def)
  have d: "default_name ''videos/clip.mp4'' (Some True) (Some ''optimized'') =
             ''clip_rayban_front_optimized.mp4''"
    by (simp add: default_name_def extname_def basename_def c suffix_def)
  have h: "normalize ''videos/clip.mp4'' = ''videos/clip.mp4'' \<and>
      \<not> is_slash (last ''videos/clip.mp4'') \<and>
      last_component ''videos/clip.mp4'' \<noteq> ''.'' \<and>
      last_component ''videos/clip.mp4'' \<noteq> ''..'' \<and>
      (\<forall>x. Some ''optimized'' = Some x \<longrightarrow> CHR ''/'' \<notin> set x)"
    using n l s by (simp add: c)
  note T = generateOutputPath_default_name
      [of "''videos/clip.mp4''" "Some True" "Some ''optimized''"]
  from T [THEN conjunct2, THEN conjunct2, THEN conjunct2, THEN conjunct2, THEN conjunct2,
      THEN conjunct2, THEN conjunct2, THEN conjunct2, THEN conjunct1] h
  have "\<exists>pre. ''videos/clip.mp4'' = pre @ last_component ''videos/clip.mp4'' \<and>
          generateOutputPath ''videos/clip.mp4'' (Some True) (Some ''optimized'') =
            pre @ default_name ''videos/clip.mp4'' (Some True) (Some ''optimized'')"
    by (rule mp)
  then have e: "\<exists>pre. ''videos/clip.mp4'' = pre @ ''clip.mp4'' \<and>
          generateOutputPath ''videos/clip.mp4'' (Some True) (Some ''optimized'') =
            pre @ ''clip_rayban_front_optimized.mp4''"
    by (simp only: c d)
  have s': "CHR ''/'' \<notin> set ''optimized''" by simp
  from s' x nn lc jn n l c e show ?thesis by (intro conjI)
qed

end
